theory Spec2Isabelle
  imports Main
begin

section \<open>The sync pipeline of ankiazvox (src/ankiazvox/main.py)\<close>

text \<open>
  The program talks to three outside parties: the AnkiConnect HTTP service, the Azure
  speech SDK and the file system. The embedding keeps the file system as state, takes the
  behaviour of the two services as parameters (oracles that may depend on everything that
  happened before), and records every outside effect of a run, in order, in a trace.
\<close>

text \<open>
  What the embedding fixes about the outside world:
  \<^item> The result of a store answer is \<open>null\<close>, a list of integers or a list of note
    objects; a note object is empty or has its \<open>noteId\<close> and \<open>fields\<close>, every field
    with its \<open>value\<close>. Other shapes of JSON are left out.
  \<^item> The markup parser behind \<open>clean_html\<close> and the base64 encoding are parameters.
  \<^item> One call of the speech SDK raises, or returns a result and may write the output file.
    The construction of the two clients is taken to succeed.
  \<^item> The file system maps a path to a regular file or to a flat directory of files; the
    file of a note lives in the temporary directory under its file name. Whether the
    operating system lets a directory be created or a directory tree be removed is a
    parameter: both can fail.
  \<^item> A string holds the UTF-8 bytes of a Python string; \<open>strip\<close> removes the encodings of
    all the code points that \<open>str.strip()\<close> removes.
  \<^item> The progress bar of the loop writes to the error stream and is left out.
\<close>

subsection \<open>Data\<close>

text \<open>A note of a \<open>notesInfo\<close> answer: the empty object AnkiConnect returns for an
  unknown id, or an object with its \<open>noteId\<close> and, for each field name, the field's
  \<open>value\<close>.\<close>

datatype anki_note = EmptyObject | Note int "(string \<times> string) list"

text \<open>The \<open>result\<close> of an AnkiConnect answer, as far as \<open>sync\<close> looks at it.\<close>

datatype json = JNull | JIds "int list" | JNotes "anki_note list"

text \<open>The four actions \<open>sync\<close> invokes, with their parameters.\<close>

datatype action =
    FindNotes string
  | NotesInfo json
  | StoreMediaFile string string
  | UpdateNoteFields int string string

text \<open>What \<open>requests.post\<close> and the decoding of its answer give: an exception (no
  connection, an HTTP error status, a body that is not JSON), or the envelope with its
  \<open>error\<close> and \<open>result\<close> entries.\<close>

datatype http_reply = ConnectionFailed string | Envelope "string option" json

text \<open>What the speech SDK does on one \<open>speak_text_async(text).get()\<close>: it raises, or it
  returns a result whose reason is or is not \<open>SynthesizingAudioCompleted\<close>, having
  written the given bytes to the output file (or nothing).\<close>

datatype speak_outcome = SpeakRaised | SpeakResult bool "string option"

datatype error =
    TypeError
  | KeyError
  | FileNotFoundError
  | FileExistsError
  | NotADirectoryError
  | PermissionError
  | OSError
  | SpeechError

text \<open>The messages of \<open>click.echo\<close> and \<open>click.secho\<close>, one constructor for each
  message text of the source, with the values it interpolates.\<close>

datatype message =
    MissingCredentials
  | Searching string
  | NoMatchingNotes
  | AnkiUnavailable string
  | Completed nat
  | SkippedNotes nat
  | CleaningUp string

text \<open>The events of a run. \<open>Rmtree p\<close> is the call of \<open>shutil.rmtree\<close> on \<open>p\<close>, whether it
  succeeds or raises; \<open>DirCreated p\<close> is the creation of the directory.\<close>

datatype event =
    Echo message
  | Post action http_reply
  | Speak "string option" string string string
  | DirCreated string
  | Rmtree string
  | Sleep

text \<open>A path of the file system holds a regular file or a directory with its files.\<close>

datatype node = File string | Dir "(string \<times> string) list"

record world =
  fs :: "string \<Rightarrow> node option"
  trace :: "event list"

text \<open>The outside world. \<open>mkdir_error p\<close> is the error that creating the directory \<open>p\<close>
  raises when nothing is at \<open>p\<close> yet (\<open>FileNotFoundError\<close> for a missing parent,
  \<open>NotADirectoryError\<close> for a parent that is a regular file, \<open>PermissionError\<close>), if any.
  \<open>rmtree p cs\<close> is what \<open>shutil.rmtree\<close> does on the directory \<open>p\<close> holding \<open>cs\<close>: it
  removes the tree (\<open>None\<close>), or it raises an \<open>OSError\<close> and leaves the directory with the
  given files (the current directory is emptied and then cannot be removed; a symbolic
  link to a directory is refused and keeps its files).\<close>

record env =
  post :: "event list \<Rightarrow> action \<Rightarrow> http_reply"
  speak :: "event list \<Rightarrow> string option \<Rightarrow> string \<Rightarrow> string \<Rightarrow> string \<Rightarrow> speak_outcome"
  get_text :: "string \<Rightarrow> string"
  b64encode :: "string \<Rightarrow> string"
  mkdir_error :: "string \<Rightarrow> error option"
  rmtree :: "string \<Rightarrow> (string \<times> string) list \<Rightarrow> (string \<times> string) list option"

text \<open>The options of the \<open>sync\<close> command together with the configuration it reads from
  the environment.\<close>

record request =
  tts_key :: "string option"
  tts_region :: "string option"
  query :: string
  source :: string
  target :: string
  voice :: "string option"
  temp_dir :: string
  limit :: "int option"
  overwrite :: bool

datatype outcome = Returned | Raised error

subsection \<open>Python helpers\<close>

definition emit :: "event \<Rightarrow> world \<Rightarrow> world" where
  "emit e w = w\<lparr>trace := trace w @ [e]\<rparr>"

text \<open>\<open>str.strip()\<close> removes, at both ends, the code points that Python takes for
  whitespace: U+0009 to U+000D, U+001C to U+0020, U+0085, U+00A0, U+1680, U+2000 to U+200A,
  U+2028, U+2029, U+202F, U+205F and U+3000. Their UTF-8 encodings:\<close>

definition whitespace :: "string list" where
  "whitespace =
     [[CHR 0x09], [CHR 0x0A], [CHR 0x0B], [CHR 0x0C], [CHR 0x0D],
      [CHR 0x1C], [CHR 0x1D], [CHR 0x1E], [CHR 0x1F], [CHR 0x20],
      [CHR 0xC2, CHR 0x85], [CHR 0xC2, CHR 0xA0], [CHR 0xE1, CHR 0x9A, CHR 0x80],
      [CHR 0xE2, CHR 0x80, CHR 0x80], [CHR 0xE2, CHR 0x80, CHR 0x81],
      [CHR 0xE2, CHR 0x80, CHR 0x82], [CHR 0xE2, CHR 0x80, CHR 0x83],
      [CHR 0xE2, CHR 0x80, CHR 0x84], [CHR 0xE2, CHR 0x80, CHR 0x85],
      [CHR 0xE2, CHR 0x80, CHR 0x86], [CHR 0xE2, CHR 0x80, CHR 0x87],
      [CHR 0xE2, CHR 0x80, CHR 0x88], [CHR 0xE2, CHR 0x80, CHR 0x89],
      [CHR 0xE2, CHR 0x80, CHR 0x8A], [CHR 0xE2, CHR 0x80, CHR 0xA8],
      [CHR 0xE2, CHR 0x80, CHR 0xA9], [CHR 0xE2, CHR 0x80, CHR 0xAF],
      [CHR 0xE2, CHR 0x81, CHR 0x9F], [CHR 0xE3, CHR 0x80, CHR 0x80]]"

text \<open>The length of the encoding of \<open>ps\<close> that the string starts with, or zero.\<close>

definition space_prefix :: "string list \<Rightarrow> string \<Rightarrow> nat" where
  "space_prefix ps s =
     (case filter (\<lambda>p. p \<noteq> [] \<and> take (length p) s = p) ps of [] \<Rightarrow> 0 | p # qs \<Rightarrow> length p)"

function lstrip_with :: "string list \<Rightarrow> string \<Rightarrow> string" where
  "lstrip_with ps s =
     (if 0 < space_prefix ps s then lstrip_with ps (drop (space_prefix ps s) s) else s)"
  by pat_completeness auto
termination
proof (relation "measure (\<lambda>(ps, s). length s)")
  show "wf (measure (\<lambda>(ps, s). length s))" by simp
next
  fix ps :: "string list" and s :: string
  assume a: "0 < space_prefix ps s"
  have "s \<noteq> []"
  proof
    assume "s = []"
    then have "filter (\<lambda>p. p \<noteq> [] \<and> take (length p) s = p) ps = []"
      by (auto simp: filter_empty_conv)
    then show False using a by (simp add: space_prefix_def)
  qed
  then show "((ps, drop (space_prefix ps s) s), (ps, s)) \<in> measure (\<lambda>(ps, s). length s)"
    using a by simp
qed

declare lstrip_with.simps [simp del]

text \<open>The right end is stripped on the reversed bytes, against the reversed encodings:
  in UTF-8 the last bytes of a string are the encoding of its last code point.\<close>

definition strip :: "string \<Rightarrow> string" where
  "strip s = rev (lstrip_with (map rev whitespace) (rev (lstrip_with whitespace s)))"

text \<open>\<open>str(n)\<close> for an integer.\<close>

fun digits_of :: "nat \<Rightarrow> string" where
  "digits_of n =
     (if n < 10 then [''0123456789'' ! n]
      else digits_of (n div 10) @ [''0123456789'' ! (n mod 10)])"

definition str_int :: "int \<Rightarrow> string" where
  "str_int i = (if i < 0 then CHR ''-'' # digits_of (nat (- i)) else digits_of (nat i))"

text \<open>\<open>xs[:n]\<close>.\<close>

definition py_slice :: "'a list \<Rightarrow> int \<Rightarrow> 'a list" where
  "py_slice xs n = (if 0 \<le> n then take (nat n) xs else take (length xs - nat (- n)) xs)"

text \<open>Truth values: \<open>not x\<close> for a string option and for a result.\<close>

definition truthy_str :: "string option \<Rightarrow> bool" where
  "truthy_str s = (case s of None \<Rightarrow> False | Some v \<Rightarrow> v \<noteq> [])"

definition truthy_json :: "json \<Rightarrow> bool" where
  "truthy_json j = (case j of JNull \<Rightarrow> False | JIds ids \<Rightarrow> ids \<noteq> [] | JNotes ns \<Rightarrow> ns \<noteq> [])"

definition slice_json :: "json \<Rightarrow> int \<Rightarrow> json" where
  "slice_json j n =
     (case j of JNull \<Rightarrow> JNull | JIds ids \<Rightarrow> JIds (py_slice ids n) | JNotes ns \<Rightarrow> JNotes (py_slice ns n))"

text \<open>\<open>note["fields"].get(name, {}).get("value", "")\<close>.\<close>

definition field_value :: "(string \<times> string) list \<Rightarrow> string \<Rightarrow> string" where
  "field_value flds name = (case map_of flds name of None \<Rightarrow> [] | Some v \<Rightarrow> v)"

subsection \<open>File system\<close>

text \<open>\<open>Path.mkdir(exist_ok=True)\<close>, without \<open>parents\<close>: an existing directory is
  accepted, an existing regular file is not, and on a free path the operating system
  decides.\<close>

definition mkdir :: "env \<Rightarrow> string \<Rightarrow> world \<Rightarrow> error + world" where
  "mkdir E p w =
     (case fs w p of
        Some (Dir cs) \<Rightarrow> Inr w
      | Some (File b) \<Rightarrow> Inl FileExistsError
      | None \<Rightarrow>
          (case mkdir_error E p of
             None \<Rightarrow> Inr (emit (DirCreated p) (w\<lparr>fs := (fs w)(p \<mapsto> Dir [])\<rparr>))
           | Some e \<Rightarrow> Inl e))"

definition write_file :: "string \<Rightarrow> string \<Rightarrow> string \<Rightarrow> world \<Rightarrow> world" where
  "write_file d name b w =
     (case fs w d of
        Some (Dir cs) \<Rightarrow> w\<lparr>fs := (fs w)(d \<mapsto> Dir ((name, b) # filter (\<lambda>kv. fst kv \<noteq> name) cs))\<rparr>
      | _ \<Rightarrow> w)"

definition read_file :: "string \<Rightarrow> string \<Rightarrow> world \<Rightarrow> error + string" where
  "read_file d name w =
     (case fs w d of
        Some (Dir cs) \<Rightarrow> (case map_of cs name of None \<Rightarrow> Inl FileNotFoundError | Some b \<Rightarrow> Inr b)
      | Some (File b) \<Rightarrow> Inl NotADirectoryError
      | None \<Rightarrow> Inl FileNotFoundError)"

text \<open>The \<open>finally\<close> block of \<open>sync\<close>: when the path exists, the message and the call
  of \<open>shutil.rmtree\<close>, which can raise.\<close>

definition cleanup :: "env \<Rightarrow> string \<Rightarrow> world \<Rightarrow> error option \<times> world" where
  "cleanup E p w =
     (let w1 = emit (Rmtree p) (emit (Echo (CleaningUp p)) w) in
      case fs w p of
        None \<Rightarrow> (None, w)
      | Some (File b) \<Rightarrow> (Some NotADirectoryError, w1)
      | Some (Dir cs) \<Rightarrow>
          (case rmtree E p cs of
             None \<Rightarrow> (None, w1\<lparr>fs := (fs w)(p := None)\<rparr>)
           | Some left \<Rightarrow> (Some OSError, w1\<lparr>fs := (fs w)(p \<mapsto> Dir left)\<rparr>)))"

subsection \<open>AnkiClient, AzureTTSManager, clean_html\<close>

text \<open>The \<open>try\<close> body of \<open>AnkiClient.invoke\<close>: the text of the exception it raises, or
  the \<open>result\<close> it returns. \<open>data.get("error")\<close> is truthy for a non-empty string.\<close>

definition decode_reply :: "http_reply \<Rightarrow> string + json" where
  "decode_reply r =
     (case r of
        ConnectionFailed e \<Rightarrow> Inl e
      | Envelope err res \<Rightarrow>
          (case err of
             None \<Rightarrow> Inr res
           | Some e \<Rightarrow> if e \<noteq> [] then Inl (''AnkiConnect Error: '' @ e) else Inr res))"

text \<open>\<open>AnkiClient.invoke\<close>: every exception ends in the red message and the value
  \<open>None\<close>.\<close>

definition invoke :: "env \<Rightarrow> action \<Rightarrow> world \<Rightarrow> json \<times> world" where
  "invoke E a w =
     (let r = post E (trace w) a; w1 = emit (Post a r) w in
      case decode_reply r of
        Inl e \<Rightarrow> (JNull, emit (Echo (AnkiUnavailable e)) w1)
      | Inr res \<Rightarrow> (res, w1))"

definition text_to_mp3 ::
  "env \<Rightarrow> string option \<Rightarrow> string \<Rightarrow> string \<Rightarrow> string \<Rightarrow> world \<Rightarrow> (error + bool) \<times> world" where
  "text_to_mp3 E v txt d name w =
     (let w1 = emit (Speak v txt d name) w in
      case speak E (trace w) v txt d name of
        SpeakRaised \<Rightarrow> (Inl SpeechError, w1)
      | SpeakResult ok written \<Rightarrow>
          (Inr ok, (case written of None \<Rightarrow> w1 | Some b \<Rightarrow> write_file d name b w1)))"

definition clean_html :: "env \<Rightarrow> string \<Rightarrow> string" where
  "clean_html E raw_html = (if raw_html = [] then [] else get_text E raw_html)"

subsection \<open>sync\<close>

definition file_name :: "string \<Rightarrow> int \<Rightarrow> string" where
  "file_name src note_id = ''azv_'' @ src @ ''_'' @ str_int note_id @ ''.mp3''"

definition sound_tag :: "string \<Rightarrow> string" where
  "sound_tag fname = ''[sound:'' @ fname @ '']''"

text \<open>The body of the \<open>for\<close> loop for one note; the pair is
  \<open>(success_count, skipped_count)\<close>.\<close>

definition process_note ::
  "env \<Rightarrow> request \<Rightarrow> anki_note \<Rightarrow> nat \<times> nat \<Rightarrow> world \<Rightarrow> (error + nat \<times> nat) \<times> world" where
  "process_note E rq n c w =
     (case n of
        EmptyObject \<Rightarrow> (Inl KeyError, w)
      | Note note_id flds \<Rightarrow>
          let current_target_value = strip (field_value flds (target rq)) in
          if current_target_value \<noteq> [] \<and> \<not> overwrite rq then (Inr (fst c, Suc (snd c)), w)
          else
            let raw_text = strip (field_value flds (source rq));
                clean_text = clean_html E raw_text in
            if clean_text = [] then (Inr c, w)
            else
              let fname = file_name (source rq) note_id in
              case text_to_mp3 E (voice rq) clean_text (temp_dir rq) fname w of
                (Inl e, w1) \<Rightarrow> (Inl e, w1)
              | (Inr False, w1) \<Rightarrow> (Inr c, w1)
              | (Inr True, w1) \<Rightarrow>
                  (case read_file (temp_dir rq) fname w1 of
                     Inl e \<Rightarrow> (Inl e, w1)
                   | Inr bytes \<Rightarrow>
                       let b64_data = b64encode E bytes;
                           w2 = snd (invoke E (StoreMediaFile fname b64_data) w1);
                           w3 = snd (invoke E (UpdateNoteFields note_id (target rq) (sound_tag fname)) w2)
                       in (Inr (Suc (fst c), snd c), emit Sleep w3)))"

fun loop ::
  "env \<Rightarrow> request \<Rightarrow> anki_note list \<Rightarrow> nat \<times> nat \<Rightarrow> world \<Rightarrow> (error + nat \<times> nat) \<times> world" where
  "loop E rq [] c w = (Inr c, w)"
| "loop E rq (n # ns) c w =
     (case process_note E rq n c w of
        (Inl e, w1) \<Rightarrow> (Inl e, w1)
      | (Inr c1, w1) \<Rightarrow> loop E rq ns c1 w1)"

text \<open>The two messages after the loop.\<close>

definition summary :: "nat \<times> nat \<Rightarrow> world \<Rightarrow> world" where
  "summary c w =
     (let w1 = emit (Echo (Completed (fst c))) w in
      if 0 < snd c then emit (Echo (SkippedNotes (snd c))) w1 else w1)"

text \<open>\<open>if limit: note_ids = note_ids[:limit]\<close>; the option is absent or an integer, and
  an integer is truthy when it is not zero.\<close>

definition apply_limit :: "int option \<Rightarrow> json \<Rightarrow> json" where
  "apply_limit lim note_ids =
     (case lim of
        None \<Rightarrow> note_ids
      | Some l \<Rightarrow> if l \<noteq> 0 then slice_json note_ids l else note_ids)"

text \<open>The \<open>try\<close> block.\<close>

definition sync_try :: "env \<Rightarrow> request \<Rightarrow> world \<Rightarrow> outcome \<times> world" where
  "sync_try E rq w =
     (let w1 = emit (Echo (Searching (query rq))) w;
          (note_ids, w2) = invoke E (FindNotes (query rq)) w1 in
      if \<not> truthy_json note_ids then (Returned, emit (Echo NoMatchingNotes) w2)
      else
        (let ids = apply_limit (limit rq) note_ids;
             (notes_data, w3) = invoke E (NotesInfo ids) w2 in
         (case notes_data of
            JNull \<Rightarrow> (Raised TypeError, w3)
          | JIds js \<Rightarrow> (if js = [] then (Returned, summary (0, 0) w3) else (Raised TypeError, w3))
          | JNotes ns \<Rightarrow>
              (case loop E rq ns (0, 0) w3 of
                 (Inl e, w4) \<Rightarrow> (Raised e, w4)
               | (Inr c, w4) \<Rightarrow> (Returned, summary c w4)))))"

definition sync :: "env \<Rightarrow> request \<Rightarrow> world \<Rightarrow> outcome \<times> world" where
  "sync E rq w =
     (if \<not> truthy_str (tts_key rq) \<or> \<not> truthy_str (tts_region rq)
      then (Returned, emit (Echo MissingCredentials) w)
      else
        case mkdir E (temp_dir rq) w of
          Inl e \<Rightarrow> (Raised e, w)
        | Inr w0 \<Rightarrow>
            (let (res, w1) = sync_try E rq w0 in
             (case cleanup E (temp_dir rq) w1 of
                (Some e, w2) \<Rightarrow> (Raised e, w2)
              | (None, w2) \<Rightarrow> (res, w2))))"

subsection \<open>Observing a run\<close>

text \<open>The store actions of a trace, in the order they were posted.\<close>

fun posted :: "event list \<Rightarrow> action list" where
  "posted [] = []"
| "posted (Post a r # es) = a # posted es"
| "posted (e # es) = posted es"

text \<open>The messages of a trace, in the order they were printed.\<close>

fun echoed :: "event list \<Rightarrow> message list" where
  "echoed [] = []"
| "echoed (Echo m # es) = m # echoed es"
| "echoed (e # es) = echoed es"

text \<open>What happened between two worlds of one run.\<close>

definition new_events :: "world \<Rightarrow> world \<Rightarrow> event list" where
  "new_events w w1 = drop (length (trace w)) (trace w1)"

text \<open>The actions that change the store.\<close>

fun is_write :: "action \<Rightarrow> bool" where
  "is_write (StoreMediaFile fname b) = True"
| "is_write (UpdateNoteFields i f v) = True"
| "is_write a = False"

text \<open>A list of store actions is paired when it is a sequence of uploads, each followed
  at once by the field update of a note, the uploaded file name being the one derived from
  that note's id and the value written being the sound tag of that same file name.\<close>

fun paired :: "string \<Rightarrow> string \<Rightarrow> action list \<Rightarrow> bool" where
  "paired src tgt [] = True"
| "paired src tgt (StoreMediaFile fname b # UpdateNoteFields i f v # as) =
     (fname = file_name src i \<and> f = tgt \<and> v = ''[sound:'' @ fname @ '']'' \<and> paired src tgt as)"
| "paired src tgt (a # as) = False"

text \<open>The answers the store gives to the search and to the fetch of a run whose
  \<open>try\<close> block starts in the given world.\<close>

definition find_reply :: "env \<Rightarrow> request \<Rightarrow> world \<Rightarrow> http_reply" where
  "find_reply E rq w = post E (trace w @ [Echo (Searching (query rq))]) (FindNotes (query rq))"

definition info_reply :: "env \<Rightarrow> request \<Rightarrow> world \<Rightarrow> json \<Rightarrow> http_reply" where
  "info_reply E rq w ids =
     post E (trace w @ [Echo (Searching (query rq)), Post (FindNotes (query rq)) (find_reply E rq w)])
       (NotesInfo ids)"

text \<open>The files of a directory, and whether the removal of the directory at the end of
  the run succeeds.\<close>

definition dir_contents :: "world \<Rightarrow> string \<Rightarrow> (string \<times> string) list" where
  "dir_contents w p = (case fs w p of Some (Dir cs) \<Rightarrow> cs | _ \<Rightarrow> [])"

definition removal_ok :: "env \<Rightarrow> string \<Rightarrow> world \<Rightarrow> bool" where
  "removal_ok E p w = (rmtree E p (dir_contents w p) = None)"

text \<open>The loop as the specification words it: every fetched note in the order received,
  one after the other, until one raises.\<close>

definition process_in_order ::
  "env \<Rightarrow> request \<Rightarrow> anki_note list \<Rightarrow> nat \<times> nat \<Rightarrow> world \<Rightarrow> (error + nat \<times> nat) \<times> world" where
  "process_in_order E rq ns c w =
     foldl (\<lambda>st n. case st of
                     (Inl e, w1) \<Rightarrow> (Inl e, w1)
                   | (Inr c1, w1) \<Rightarrow> process_note E rq n c1 w1)
       (Inr c, w) ns"

text \<open>The world in which the loop starts: the search message, the search and the fetch of
  the ids \<open>j\<close> have happened.\<close>

definition after_fetch :: "env \<Rightarrow> request \<Rightarrow> world \<Rightarrow> json \<Rightarrow> world" where
  "after_fetch E rq w j =
     emit (Post (NotesInfo j) (info_reply E rq w j))
       (emit (Post (FindNotes (query rq)) (find_reply E rq w))
          (emit (Echo (Searching (query rq))) w))"

text \<open>What the run makes of the result of the loop.\<close>

definition finish :: "(error + nat \<times> nat) \<times> world \<Rightarrow> outcome \<times> world" where
  "finish st = (case st of (Inl e, w) \<Rightarrow> (Raised e, w) | (Inr c, w) \<Rightarrow> (Returned, summary c w))"

definition is_dir :: "world \<Rightarrow> string \<Rightarrow> bool" where
  "is_dir w p = (case fs w p of Some (Dir cs) \<Rightarrow> True | _ \<Rightarrow> False)"

subsection \<open>Example environments\<close>

text \<open>A store that answers \<open>findNotes\<close>, \<open>notesInfo\<close> and the two writing actions in a
  fixed way, a speech service that depends on the text only, markup-free field values
  (so that the text of a value is the value), an identity transport encoding, and an
  operating system that creates and removes every directory.\<close>

definition canned_post ::
  "http_reply \<Rightarrow> (json \<Rightarrow> http_reply) \<Rightarrow> http_reply \<Rightarrow> action \<Rightarrow> http_reply" where
  "canned_post found info written a =
     (case a of FindNotes q \<Rightarrow> found | NotesInfo j \<Rightarrow> info j | _ \<Rightarrow> written)"

definition scripted_env :: "(action \<Rightarrow> http_reply) \<Rightarrow> (string \<Rightarrow> speak_outcome) \<Rightarrow> env" where
  "scripted_env p s =
     \<lparr>post = (\<lambda>tr. p), speak = (\<lambda>tr v t d name. s t), get_text = (\<lambda>h. h),
      b64encode = (\<lambda>b. b), mkdir_error = (\<lambda>q. None), rmtree = (\<lambda>q cs. None)\<rparr>"

definition example_request :: request where
  "example_request =
     \<lparr>tts_key = Some ''key'', tts_region = Some ''westeurope'', query = ''deck:Default'',
      source = ''Front'', target = ''Audio'', voice = None, temp_dir = ''temp_audios'',
      limit = None, overwrite = False\<rparr>"

definition empty_world :: world where
  "empty_world = \<lparr>fs = (\<lambda>p. None), trace = []\<rparr>"

text \<open>A note with the given id, front text and audio field.\<close>

definition flashcard :: "int \<Rightarrow> string \<Rightarrow> string \<Rightarrow> anki_note" where
  "flashcard i front audio = Note i [(''Front'', front), (''Audio'', audio)]"

definition always_speaks :: "string \<Rightarrow> speak_outcome" where
  "always_speaks t = SpeakResult True (Some (''mp3:'' @ t))"

text \<open>A speech service that completes for every text but one.\<close>

definition speaks_except :: "string \<Rightarrow> string \<Rightarrow> speak_outcome" where
  "speaks_except bad t = (if t = bad then SpeakResult False None else always_speaks t)"

text \<open>A store that finds the given ids, answers \<open>notesInfo\<close> with the given notes and
  accepts every write.\<close>

definition store_with :: "int list \<Rightarrow> anki_note list \<Rightarrow> action \<Rightarrow> http_reply" where
  "store_with ids ns =
     canned_post (Envelope None (JIds ids)) (\<lambda>j. Envelope None (JNotes ns)) (Envelope None JNull)"

text \<open>A world in which the temporary directory exists and is empty.\<close>

definition ready_world :: world where
  "ready_world = \<lparr>fs = [''temp_audios'' \<mapsto> Dir []], trace = []\<rparr>"

text \<open>Two notes to speak, the speech service failing on the second.\<close>

definition env_one_failure :: env where
  "env_one_failure =
     scripted_env (store_with [1, 2] [flashcard 1 ''hello'' [], flashcard 2 ''bye'' []])
       (speaks_except ''bye'')"

text \<open>One note to speak, the store refusing every write.\<close>

definition env_writes_refused :: env where
  "env_writes_refused =
     scripted_env
       (canned_post (Envelope None (JIds [1]))
          (\<lambda>j. Envelope None (JNotes [flashcard 1 ''hello'' []])) (ConnectionFailed ''refused''))
       always_speaks"

text \<open>One note with an audio field already filled and nothing to speak.\<close>

definition env_filled_blank :: env where
  "env_filled_blank =
     scripted_env (store_with [1] [flashcard 1 [] ''[sound:old.mp3]'']) always_speaks"

text \<open>Two notes, the first with nothing but blanks to speak.\<close>

definition env_blank_first :: env where
  "env_blank_first =
     scripted_env (store_with [1, 2] [flashcard 1 ''  '' [], flashcard 2 ''bye'' []]) always_speaks"

text \<open>Two notes, the first with its audio field already filled.\<close>

definition env_filled_first :: env where
  "env_filled_first =
     scripted_env
       (store_with [1, 2] [flashcard 1 ''hello'' ''[sound:old.mp3]'', flashcard 2 ''bye'' []])
       always_speaks"

text \<open>A search that matches nothing.\<close>

definition env_no_notes :: env where
  "env_no_notes = scripted_env (store_with [] []) always_speaks"

text \<open>A store that cannot be reached.\<close>

definition env_find_refused :: env where
  "env_find_refused = scripted_env (\<lambda>a. ConnectionFailed ''refused'') always_speaks"

text \<open>A store that finds two notes and answers the fetch with an error.\<close>

definition env_info_refused :: env where
  "env_info_refused =
     scripted_env
       (canned_post (Envelope None (JIds [1, 2])) (\<lambda>j. Envelope (Some ''busy'') JNull)
          (Envelope None JNull))
       always_speaks"

text \<open>A store that finds five notes and answers the fetch with the notes asked for.\<close>

definition env_five_notes :: env where
  "env_five_notes =
     scripted_env
       (canned_post (Envelope None (JIds [11, 12, 13, 14, 15]))
          (\<lambda>j. case j of
                 JIds js \<Rightarrow> Envelope None (JNotes (map (\<lambda>i. flashcard i ''hello'' []) js))
               | _ \<Rightarrow> Envelope (Some ''bad request'') JNull)
          (Envelope None JNull))
       always_speaks"

text \<open>A world in which the temporary directory exists and holds a file.\<close>

definition world_with_files :: world where
  "world_with_files = \<lparr>fs = [''temp_audios'' \<mapsto> Dir [(''old.mp3'', ''x'')]], trace = []\<rparr>"

text \<open>The current directory as the temporary directory: it is there before the run, and
  its removal empties it and then fails.\<close>

definition env_cwd :: env where
  "env_cwd = env_no_notes\<lparr>rmtree := (\<lambda>q cs. if q = ''.'' then Some [] else None)\<rparr>"

definition request_cwd :: request where
  "request_cwd = example_request\<lparr>temp_dir := ''.''\<rparr>"

definition world_cwd :: world where
  "world_cwd = \<lparr>fs = [''.'' \<mapsto> Dir [(''deck.apkg'', ''x'')]], trace = []\<rparr>"

text \<open>A symbolic link to a directory as the temporary directory: its removal is refused
  and its files stay.\<close>

definition env_symlink :: env where
  "env_symlink = env_no_notes\<lparr>rmtree := (\<lambda>q cs. Some cs)\<rparr>"

text \<open>A run without the key of the speech service.\<close>

definition request_no_key :: request where
  "request_no_key = example_request\<lparr>tts_key := None\<rparr>"

text \<open>A parent of the temporary directory that is a regular file.\<close>

definition env_parent_file :: env where
  "env_parent_file = env_no_notes\<lparr>mkdir_error := (\<lambda>q. Some NotADirectoryError)\<rparr>"

section \<open>Properties\<close>

subsection \<open>Traces and the file system\<close>

lemma trace_emit [simp]: "trace (emit e w) = trace w @ [e]"
  by (simp add: emit_def)

lemma fs_emit [simp]: "fs (emit e w) = fs w"
  by (simp add: emit_def)

lemma posted_append: "posted (xs @ ys) = posted xs @ posted ys"
  by (induction xs rule: posted.induct) simp_all

lemma paired_append:
  "paired src tgt xs \<Longrightarrow> paired src tgt ys \<Longrightarrow> paired src tgt (xs @ ys)"
  by (induction src tgt xs rule: paired.induct) simp_all

lemma new_events_append [simp]: "trace w1 = trace w @ es \<Longrightarrow> new_events w w1 = es"
  by (simp add: new_events_def)

lemma fs_invoke [simp]: "fs (snd (invoke E a w)) = fs w"
  by (simp add: invoke_def Let_def split: sum.splits)

lemma trace_invoke:
  "\<exists>es. trace (snd (invoke E a w)) = trace w @ Post a (post E (trace w) a) # es \<and> posted es = []"
  by (simp add: invoke_def Let_def split: sum.splits)

lemma trace_text_to_mp3:
  "text_to_mp3 E v t d name w = (r, w1) \<Longrightarrow> trace w1 = trace w @ [Speak v t d name]"
  by (auto simp: text_to_mp3_def Let_def write_file_def
      split: speak_outcome.splits option.splits node.splits)

lemma is_dir_write_file: "is_dir w p \<Longrightarrow> is_dir (write_file d name b w) p"
  by (auto simp: write_file_def is_dir_def split: option.splits node.splits)

lemma is_dir_emit [simp]: "is_dir (emit e w) p = is_dir w p"
  by (simp add: is_dir_def)

lemma is_dir_text_to_mp3:
  "text_to_mp3 E v t d name w = (r, w1) \<Longrightarrow> is_dir w p \<Longrightarrow> is_dir w1 p"
  by (auto simp: text_to_mp3_def Let_def is_dir_write_file
      split: speak_outcome.splits option.splits)

lemma loop_append:
  "loop E rq (xs @ ys) c w =
     (case loop E rq xs c w of
        (Inl e, w1) \<Rightarrow> (Inl e, w1)
      | (Inr c1, w1) \<Rightarrow> loop E rq ys c1 w1)"
  by (induction xs arbitrary: c w) (auto split: prod.splits sum.splits)

lemma read_write_file:
  "is_dir w d \<Longrightarrow> read_file d name (write_file d name b w) = Inr b"
  by (auto simp: is_dir_def read_file_def write_file_def split: option.splits node.splits)

text \<open>\<open>strip\<close> on the field values of the examples.\<close>

lemma strip_examples:
  "strip [] = []"
  "strip ''hello'' = ''hello''"
  "strip ''bye'' = ''bye''"
  "strip ''  '' = []"
  "strip ''[sound:old.mp3]'' = ''[sound:old.mp3]''"
  by (simp_all add: strip_def lstrip_with.simps space_prefix_def whitespace_def)

lemmas run_defs = process_note_def scripted_env_def example_request_def flashcard_def
  empty_world_def field_value_def strip_examples clean_html_def always_speaks_def
  text_to_mp3_def write_file_def read_file_def invoke_def decode_reply_def canned_post_def
  file_name_def sound_tag_def str_int_def emit_def Let_def new_events_def store_with_def
  ready_world_def speaks_except_def sync_def sync_try_def mkdir_def cleanup_def summary_def
  truthy_str_def truthy_json_def slice_json_def py_slice_def is_dir_def apply_limit_def
  find_reply_def info_reply_def removal_ok_def dir_contents_def

subsection \<open>One note\<close>

text \<open>A note that is spoken and read back: the count of updates goes up by one, and the
  events are the synthesis, the upload, the field update (each perhaps followed by the
  store client's error message) and the pause.\<close>

lemma process_note_success:
  assumes "strip (field_value flds (target rq)) = [] \<or> overwrite rq"
    and "clean_html E (strip (field_value flds (source rq))) = t" and "t \<noteq> []"
    and "text_to_mp3 E (voice rq) t (temp_dir rq) (file_name (source rq) i) w = (Inr True, w0)"
    and "read_file (temp_dir rq) (file_name (source rq) i) w0 = Inr b"
  shows "\<exists>w1 es. process_note E rq (Note i flds) c w = (Inr (Suc (fst c), snd c), w1)
          \<and> trace w1 = trace w @ es \<and> last es = Sleep
          \<and> posted es = [StoreMediaFile (file_name (source rq) i) (b64encode E b),
                 UpdateNoteFields i (target rq) (sound_tag (file_name (source rq) i))]"
proof -
  let ?fn = "file_name (source rq) i"
  let ?a1 = "StoreMediaFile ?fn (b64encode E b)"
  let ?a2 = "UpdateNoteFields i (target rq) (sound_tag ?fn)"
  let ?w2 = "snd (invoke E ?a1 w0)"
  let ?w3 = "snd (invoke E ?a2 ?w2)"
  have res: "process_note E rq (Note i flds) c w = (Inr (Suc (fst c), snd c), emit Sleep ?w3)"
    using assms by (auto simp: process_note_def Let_def)
  have tr0: "trace w0 = trace w @ [Speak (voice rq) t (temp_dir rq) ?fn]"
    using assms(4) by (rule trace_text_to_mp3)
  obtain es1 where e1: "trace ?w2 = trace w0 @ Post ?a1 (post E (trace w0) ?a1) # es1" "posted es1 = []"
    using trace_invoke by blast
  obtain es2 where e2: "trace ?w3 = trace ?w2 @ Post ?a2 (post E (trace ?w2) ?a2) # es2" "posted es2 = []"
    using trace_invoke by blast
  let ?es = "Speak (voice rq) t (temp_dir rq) ?fn # Post ?a1 (post E (trace w0) ?a1) # es1
                 @ Post ?a2 (post E (trace ?w2) ?a2) # es2 @ [Sleep]"
  have "trace (emit Sleep ?w3) = trace w @ ?es"
    using e1 e2 tr0 by simp
  moreover have "posted ?es = [?a1, ?a2]"
    using e1(2) e2(2) by (simp add: posted_append)
  moreover have "last ?es = Sleep" by simp
  ultimately show ?thesis using res by blast
qed

text \<open>Whatever happens to a note, its events hold no store action at all, or exactly the
  upload and the field update of a note that was not to be skipped.\<close>

lemma process_note_events:
  assumes "process_note E rq n c w = (r, w1)"
  shows "\<exists>es. trace w1 = trace w @ es \<and>
           (posted es = [] \<or>
            (\<exists>i flds b. n = Note i flds
               \<and> (strip (field_value flds (target rq)) = [] \<or> overwrite rq)
               \<and> r = Inr (Suc (fst c), snd c)
               \<and> posted es = [StoreMediaFile (file_name (source rq) i) b,
                    UpdateNoteFields i (target rq) (sound_tag (file_name (source rq) i))]))"
proof (cases n)
  case EmptyObject
  with assms show ?thesis by (simp add: process_note_def)
next
  case (Note i flds)
  show ?thesis
  proof (cases "strip (field_value flds (target rq)) \<noteq> [] \<and> \<not> overwrite rq")
    case True
    with assms Note show ?thesis by (simp add: process_note_def)
  next
    case elig: False
    show ?thesis
    proof (cases "clean_html E (strip (field_value flds (source rq))) = []")
      case True
      with assms Note elig show ?thesis by (auto simp: process_note_def)
    next
      case ne: False
      let ?fn = "file_name (source rq) i"
      let ?t = "clean_html E (strip (field_value flds (source rq)))"
      obtain r0 w0 where t: "text_to_mp3 E (voice rq) ?t (temp_dir rq) ?fn w = (r0, w0)"
        by (cases "text_to_mp3 E (voice rq) ?t (temp_dir rq) ?fn w")
      have tr0: "trace w0 = trace w @ [Speak (voice rq) ?t (temp_dir rq) ?fn]"
        using t by (rule trace_text_to_mp3)
      show ?thesis
      proof (cases "\<exists>b. r0 = Inr True \<and> read_file (temp_dir rq) ?fn w0 = Inr b")
        case False
        then have "w1 = w0"
          using assms Note elig ne t
          by (auto simp: process_note_def Let_def split: sum.splits bool.splits)
        with tr0 show ?thesis by simp
      next
        case True
        then obtain b where b: "text_to_mp3 E (voice rq) ?t (temp_dir rq) ?fn w = (Inr True, w0)"
          "read_file (temp_dir rq) ?fn w0 = Inr b"
          using t by blast
        have el: "strip (field_value flds (target rq)) = [] \<or> overwrite rq"
          using elig by blast
        from process_note_success [OF el refl ne b, of c]
        show ?thesis using assms Note el by auto
      qed
    qed
  qed
qed

subsection \<open>The loop\<close>

text \<open>The store actions of the loop are writes only, they come in pairs of an upload and
  a field update that agree on the file name, and every field update is for a note of the
  batch that was not to be skipped.\<close>

lemma loop_events:
  "loop E rq ns c w = (r, w1) \<Longrightarrow>
     \<exists>es. trace w1 = trace w @ es
        \<and> paired (source rq) (target rq) (posted es)
        \<and> list_all is_write (posted es)
        \<and> (\<forall>i f v. UpdateNoteFields i f v \<in> set (posted es) \<longrightarrow>
              (\<exists>flds. Note i flds \<in> set ns \<and> (strip (field_value flds (target rq)) = [] \<or> overwrite rq)))"
proof (induction ns arbitrary: c w)
  case Nil
  then show ?case by simp
next
  case (Cons n ns)
  obtain r0 w0 where p: "process_note E rq n c w = (r0, w0)"
    by (cases "process_note E rq n c w")
  from process_note_events [OF p] obtain es0 where
    es0: "trace w0 = trace w @ es0"
      "posted es0 = [] \<or>
            (\<exists>i flds b. n = Note i flds
               \<and> (strip (field_value flds (target rq)) = [] \<or> overwrite rq)
               \<and> r0 = Inr (Suc (fst c), snd c)
               \<and> posted es0 = [StoreMediaFile (file_name (source rq) i) b,
                    UpdateNoteFields i (target rq) (sound_tag (file_name (source rq) i))])"
    by blast
  have step: "paired (source rq) (target rq) (posted es0) \<and> list_all is_write (posted es0)
       \<and> (\<forall>i f v. UpdateNoteFields i f v \<in> set (posted es0) \<longrightarrow>
              (\<exists>flds. n = Note i flds \<and> (strip (field_value flds (target rq)) = [] \<or> overwrite rq)))"
    using es0(2) by (auto simp: sound_tag_def)
  show ?case
  proof (cases r0)
    case (Inl e)
    with Cons.prems p have "w1 = w0" by simp
    with es0(1) step show ?thesis by auto
  next
    case (Inr c1)
    with Cons.prems p have "loop E rq ns c1 w0 = (r, w1)" by simp
    from Cons.IH [OF this] obtain es where
      es: "trace w1 = trace w0 @ es" "paired (source rq) (target rq) (posted es)"
        "list_all is_write (posted es)"
        "\<forall>i f v. UpdateNoteFields i f v \<in> set (posted es) \<longrightarrow>
              (\<exists>flds. Note i flds \<in> set ns \<and> (strip (field_value flds (target rq)) = [] \<or> overwrite rq))"
      by blast
    have "trace w1 = trace w @ (es0 @ es)" using es0(1) es(1) by simp
    moreover have "paired (source rq) (target rq) (posted (es0 @ es))"
      using step es(2) by (simp add: posted_append paired_append)
    moreover have "list_all is_write (posted (es0 @ es))"
      using step es(3) by (simp add: posted_append)
    moreover have "\<forall>i f v. UpdateNoteFields i f v \<in> set (posted (es0 @ es)) \<longrightarrow>
              (\<exists>flds. Note i flds \<in> set (n # ns) \<and> (strip (field_value flds (target rq)) = [] \<or> overwrite rq))"
      using step es(4) unfolding posted_append set_append set_simps by blast
    ultimately show ?thesis by blast
  qed
qed

subsection \<open>The temporary directory\<close>

lemma is_dir_invoke [simp]: "is_dir (snd (invoke E a w)) p = is_dir w p"
  by (simp add: is_dir_def)

lemma is_dir_process_note:
  assumes "process_note E rq n c w = (r, w1)" and "is_dir w p"
  shows "is_dir w1 p"
proof (cases n)
  case EmptyObject
  with assms show ?thesis by (simp add: process_note_def)
next
  case (Note i flds)
  let ?t = "clean_html E (strip (field_value flds (source rq)))"
  let ?fn = "file_name (source rq) i"
  obtain r0 w0 where t: "text_to_mp3 E (voice rq) ?t (temp_dir rq) ?fn w = (r0, w0)"
    by (cases "text_to_mp3 E (voice rq) ?t (temp_dir rq) ?fn w")
  have d0: "is_dir w0 p" using t assms(2) by (rule is_dir_text_to_mp3)
  show ?thesis
    using assms Note t d0
    by (auto simp: process_note_def Let_def split: if_splits sum.splits bool.splits)
qed

lemma is_dir_loop:
  "loop E rq ns c w = (r, w1) \<Longrightarrow> is_dir w p \<Longrightarrow> is_dir w1 p"
proof (induction ns arbitrary: c w)
  case Nil
  then show ?case by simp
next
  case (Cons n ns)
  obtain r0 w0 where p: "process_note E rq n c w = (r0, w0)"
    by (cases "process_note E rq n c w")
  have d0: "is_dir w0 p" using p Cons.prems(2) by (rule is_dir_process_note)
  show ?case
  proof (cases r0)
    case (Inl e)
    with Cons.prems(1) p d0 show ?thesis by simp
  next
    case (Inr c1)
    with Cons.prems(1) p have "loop E rq ns c1 w0 = (r, w1)" by simp
    then show ?thesis using d0 by (rule Cons.IH)
  qed
qed

lemma is_dir_summary [simp]: "is_dir (summary c w) p = is_dir w p"
  by (simp add: summary_def Let_def)

lemma is_dir_sync_try:
  assumes "is_dir w p"
  shows "is_dir (snd (sync_try E rq w)) p"
proof -
  let ?w1 = "emit (Echo (Searching (query rq))) w"
  obtain ids w2 where f: "invoke E (FindNotes (query rq)) ?w1 = (ids, w2)"
    by (cases "invoke E (FindNotes (query rq)) ?w1")
  have d2: "is_dir w2 p"
    using is_dir_invoke [of E "FindNotes (query rq)" ?w1 p] f assms by simp
  obtain nd w3 where g: "invoke E (NotesInfo (apply_limit (limit rq) ids)) w2 = (nd, w3)"
    by (cases "invoke E (NotesInfo (apply_limit (limit rq) ids)) w2")
  have d3: "is_dir w3 p"
    using is_dir_invoke [of E "NotesInfo (apply_limit (limit rq) ids)" w2 p] g d2 by simp
  show ?thesis
  proof (cases "truthy_json ids")
    case False
    then show ?thesis using f d2 by (simp add: sync_try_def Let_def)
  next
    case True
    show ?thesis
    proof (cases nd)
      case JNull
      then show ?thesis using True f g d3 by (simp add: sync_try_def Let_def)
    next
      case (JIds js)
      then show ?thesis using True f g d3 by (simp add: sync_try_def Let_def)
    next
      case (JNotes ns)
      obtain r w4 where l: "loop E rq ns (0, 0) w3 = (r, w4)"
        by (cases "loop E rq ns (0, 0) w3")
      have "is_dir w4 p" using l d3 by (rule is_dir_loop)
      then show ?thesis
        using True f g JNotes l by (auto simp: sync_try_def Let_def split: sum.splits)
    qed
  qed
qed

lemma cleanup_dir:
  assumes "is_dir w p"
  shows "trace (snd (cleanup E p w)) = trace w @ [Echo (CleaningUp p), Rmtree p]"
    and "removal_ok E p w \<Longrightarrow> fst (cleanup E p w) = None \<and> fs (snd (cleanup E p w)) p = None"
    and "\<not> removal_ok E p w \<Longrightarrow>
           fst (cleanup E p w) = Some OSError
           \<and> (\<exists>left. rmtree E p (dir_contents w p) = Some left
                 \<and> fs (snd (cleanup E p w)) p = Some (Dir left))"
  using assms
  by (auto simp: cleanup_def is_dir_def removal_ok_def dir_contents_def Let_def
      split: option.splits node.splits)

lemma mkdir_result:
  "mkdir E p w = Inr w0 \<Longrightarrow>
     is_dir w0 p \<and> (trace w0 = trace w \<or> trace w0 = trace w @ [DirCreated p])"
  by (auto simp: mkdir_def is_dir_def split: option.splits node.splits if_splits)

text \<open>A run that passes the check of the credentials and the creation of the directory is
  the \<open>try\<close> block followed by the \<open>finally\<close> block, which calls the removal of the
  directory; a removal that raises replaces the outcome of the \<open>try\<close> block.\<close>

lemma sync_run:
  assumes "truthy_str (tts_key rq)" and "truthy_str (tts_region rq)"
    and "mkdir E (temp_dir rq) w = Inr w0"
  shows "trace (snd (sync E rq w))
           = trace (snd (sync_try E rq w0)) @ [Echo (CleaningUp (temp_dir rq)), Rmtree (temp_dir rq)]"
    and "removal_ok E (temp_dir rq) (snd (sync_try E rq w0)) \<Longrightarrow>
           fst (sync E rq w) = fst (sync_try E rq w0) \<and> fs (snd (sync E rq w)) (temp_dir rq) = None"
    and "\<not> removal_ok E (temp_dir rq) (snd (sync_try E rq w0)) \<Longrightarrow>
           fst (sync E rq w) = Raised OSError
           \<and> (\<exists>left. rmtree E (temp_dir rq) (dir_contents (snd (sync_try E rq w0)) (temp_dir rq))
                        = Some left
                 \<and> fs (snd (sync E rq w)) (temp_dir rq) = Some (Dir left))"
proof -
  obtain res w1 where t: "sync_try E rq w0 = (res, w1)" by (cases "sync_try E rq w0")
  have "is_dir w0 (temp_dir rq)" using assms(3) by (simp add: mkdir_result)
  then have d: "is_dir w1 (temp_dir rq)" using is_dir_sync_try [of w0 "temp_dir rq" E rq] t by simp
  obtain ce w2 where c: "cleanup E (temp_dir rq) w1 = (ce, w2)"
    by (cases "cleanup E (temp_dir rq) w1")
  have s: "sync E rq w = (case ce of Some e \<Rightarrow> (Raised e, w2) | None \<Rightarrow> (res, w2))"
    using assms t c by (simp add: sync_def split: option.splits)
  have w2: "snd (sync E rq w) = w2" using s by (simp split: option.splits)
  show "trace (snd (sync E rq w))
           = trace (snd (sync_try E rq w0)) @ [Echo (CleaningUp (temp_dir rq)), Rmtree (temp_dir rq)]"
    using cleanup_dir(1) [OF d, of E] c t w2 by simp
  show "fst (sync E rq w) = fst (sync_try E rq w0) \<and> fs (snd (sync E rq w)) (temp_dir rq) = None"
    if "removal_ok E (temp_dir rq) (snd (sync_try E rq w0))"
    using cleanup_dir(2) [OF d, of E] that c t s by simp
  show "fst (sync E rq w) = Raised OSError
           \<and> (\<exists>left. rmtree E (temp_dir rq) (dir_contents (snd (sync_try E rq w0)) (temp_dir rq))
                        = Some left
                 \<and> fs (snd (sync E rq w)) (temp_dir rq) = Some (Dir left))"
    if "\<not> removal_ok E (temp_dir rq) (snd (sync_try E rq w0))"
    using cleanup_dir(3) [OF d, of E] that c t s by simp
qed

text \<open>A run that stops before the \<open>try\<close> block leaves the file system as it was.\<close>

lemma sync_init_failure:
  "\<not> (truthy_str (tts_key rq) \<and> truthy_str (tts_region rq)) \<or> mkdir E (temp_dir rq) w = Inl e
     \<Longrightarrow> fs (snd (sync E rq w)) = fs w"
  by (auto simp: sync_def)

subsection \<open>The try block\<close>

lemma invoke_failed:
  "decode_reply (post E (trace w) a) = Inl e \<Longrightarrow>
     invoke E a w = (JNull, emit (Echo (AnkiUnavailable e)) (emit (Post a (post E (trace w) a)) w))"
  by (simp add: invoke_def Let_def)

lemma invoke_ok:
  "decode_reply (post E (trace w) a) = Inr res \<Longrightarrow>
     invoke E a w = (res, emit (Post a (post E (trace w) a)) w)"
  by (simp add: invoke_def Let_def)

lemma trace_summary:
  "\<exists>es. trace (summary c w) = trace w @ es \<and> posted es = []"
  by (simp add: summary_def Let_def)

lemma sync_try_find_failed:
  assumes "decode_reply (find_reply E rq w) = Inl e"
  shows "fst (sync_try E rq w) = Returned"
    and "trace (snd (sync_try E rq w))
           = trace w @ [Echo (Searching (query rq)), Post (FindNotes (query rq)) (find_reply E rq w),
                        Echo (AnkiUnavailable e), Echo NoMatchingNotes]"
    and "fs (snd (sync_try E rq w)) = fs w"
proof -
  let ?w1 = "emit (Echo (Searching (query rq))) w"
  have "decode_reply (post E (trace ?w1) (FindNotes (query rq))) = Inl e"
    using assms by (simp add: find_reply_def)
  from invoke_failed [OF this]
  have s: "sync_try E rq w
     = (Returned, emit (Echo NoMatchingNotes) (emit (Echo (AnkiUnavailable e))
          (emit (Post (FindNotes (query rq)) (post E (trace ?w1) (FindNotes (query rq)))) ?w1)))"
    by (simp add: sync_try_def Let_def truthy_json_def)
  show "fst (sync_try E rq w) = Returned" using s by simp
  show "trace (snd (sync_try E rq w))
           = trace w @ [Echo (Searching (query rq)), Post (FindNotes (query rq)) (find_reply E rq w),
                        Echo (AnkiUnavailable e), Echo NoMatchingNotes]"
    using s by (simp add: find_reply_def)
  show "fs (snd (sync_try E rq w)) = fs w" using s by simp
qed

lemma sync_try_no_notes:
  assumes "decode_reply (find_reply E rq w) = Inr j" and "\<not> truthy_json j"
  shows "fst (sync_try E rq w) = Returned"
    and "trace (snd (sync_try E rq w))
           = trace w @ [Echo (Searching (query rq)), Post (FindNotes (query rq)) (find_reply E rq w),
                        Echo NoMatchingNotes]"
    and "fs (snd (sync_try E rq w)) = fs w"
proof -
  let ?w1 = "emit (Echo (Searching (query rq))) w"
  have "decode_reply (post E (trace ?w1) (FindNotes (query rq))) = Inr j"
    using assms(1) by (simp add: find_reply_def)
  from invoke_ok [OF this]
  have s: "sync_try E rq w
     = (Returned, emit (Echo NoMatchingNotes)
          (emit (Post (FindNotes (query rq)) (post E (trace ?w1) (FindNotes (query rq)))) ?w1))"
    using assms(2) by (simp add: sync_try_def Let_def)
  show "fst (sync_try E rq w) = Returned" using s by simp
  show "trace (snd (sync_try E rq w))
           = trace w @ [Echo (Searching (query rq)), Post (FindNotes (query rq)) (find_reply E rq w),
                        Echo NoMatchingNotes]"
    using s by (simp add: find_reply_def)
  show "fs (snd (sync_try E rq w)) = fs w" using s by simp
qed

text \<open>The world in which the fetch is posted.\<close>

lemma sync_try_found:
  assumes "decode_reply (find_reply E rq w) = Inr j" and "truthy_json j"
  shows "\<exists>w2. trace w2 = trace w @ [Echo (Searching (query rq)),
                     Post (FindNotes (query rq)) (find_reply E rq w)]
          \<and> fs w2 = fs w
          \<and> sync_try E rq w =
             (case invoke E (NotesInfo (apply_limit (limit rq) j)) w2 of
                (notes_data, w3) \<Rightarrow>
                  (case notes_data of
                     JNull \<Rightarrow> (Raised TypeError, w3)
                   | JIds js \<Rightarrow>
                       (if js = [] then (Returned, summary (0, 0) w3) else (Raised TypeError, w3))
                   | JNotes ns \<Rightarrow>
                       (case loop E rq ns (0, 0) w3 of
                          (Inl e, w4) \<Rightarrow> (Raised e, w4)
                        | (Inr c, w4) \<Rightarrow> (Returned, summary c w4))))"
proof -
  let ?w1 = "emit (Echo (Searching (query rq))) w"
  let ?w2 = "emit (Post (FindNotes (query rq)) (post E (trace ?w1) (FindNotes (query rq)))) ?w1"
  have "decode_reply (post E (trace ?w1) (FindNotes (query rq))) = Inr j"
    using assms(1) by (simp add: find_reply_def)
  from invoke_ok [OF this] assms(2)
  have "sync_try E rq w =
             (case invoke E (NotesInfo (apply_limit (limit rq) j)) ?w2 of
                (notes_data, w3) \<Rightarrow>
                  (case notes_data of
                     JNull \<Rightarrow> (Raised TypeError, w3)
                   | JIds js \<Rightarrow>
                       (if js = [] then (Returned, summary (0, 0) w3) else (Raised TypeError, w3))
                   | JNotes ns \<Rightarrow>
                       (case loop E rq ns (0, 0) w3 of
                          (Inl e, w4) \<Rightarrow> (Raised e, w4)
                        | (Inr c, w4) \<Rightarrow> (Returned, summary c w4))))"
    by (simp add: sync_try_def Let_def)
  moreover have "trace ?w2 = trace w @ [Echo (Searching (query rq)),
                     Post (FindNotes (query rq)) (find_reply E rq w)]"
    by (simp add: find_reply_def)
  moreover have "fs ?w2 = fs w" by simp
  ultimately show ?thesis by blast
qed

lemma sync_try_info_failed:
  assumes "decode_reply (find_reply E rq w) = Inr j" and "truthy_json j"
    and "decode_reply (info_reply E rq w (apply_limit (limit rq) j)) = Inl e"
  shows "fst (sync_try E rq w) = Raised TypeError"
    and "trace (snd (sync_try E rq w))
           = trace w @ [Echo (Searching (query rq)), Post (FindNotes (query rq)) (find_reply E rq w),
                        Post (NotesInfo (apply_limit (limit rq) j))
                          (info_reply E rq w (apply_limit (limit rq) j)),
                        Echo (AnkiUnavailable e)]"
    and "fs (snd (sync_try E rq w)) = fs w"
proof -
  let ?a = "NotesInfo (apply_limit (limit rq) j)"
  from sync_try_found [OF assms(1,2)] obtain w2 where
    w2: "trace w2 = trace w @ [Echo (Searching (query rq)),
                     Post (FindNotes (query rq)) (find_reply E rq w)]"
      "fs w2 = fs w"
      "sync_try E rq w =
             (case invoke E ?a w2 of
                (notes_data, w3) \<Rightarrow>
                  (case notes_data of
                     JNull \<Rightarrow> (Raised TypeError, w3)
                   | JIds js \<Rightarrow>
                       (if js = [] then (Returned, summary (0, 0) w3) else (Raised TypeError, w3))
                   | JNotes ns \<Rightarrow>
                       (case loop E rq ns (0, 0) w3 of
                          (Inl e, w4) \<Rightarrow> (Raised e, w4)
                        | (Inr c, w4) \<Rightarrow> (Returned, summary c w4))))"
    by blast
  have r: "post E (trace w2) ?a = info_reply E rq w (apply_limit (limit rq) j)"
    using w2(1) by (simp add: info_reply_def)
  then have "decode_reply (post E (trace w2) ?a) = Inl e" using assms(3) by simp
  from invoke_failed [OF this]
  have s: "sync_try E rq w
     = (Raised TypeError, emit (Echo (AnkiUnavailable e)) (emit (Post ?a (post E (trace w2) ?a)) w2))"
    using w2(3) by simp
  show "fs (snd (sync_try E rq w)) = fs w" using s w2(2) by simp
  show "fst (sync_try E rq w) = Raised TypeError" using s by simp
  show "trace (snd (sync_try E rq w))
           = trace w @ [Echo (Searching (query rq)), Post (FindNotes (query rq)) (find_reply E rq w),
                        Post ?a (info_reply E rq w (apply_limit (limit rq) j)),
                        Echo (AnkiUnavailable e)]"
    using s w2(1) r by simp
qed

text \<open>The store actions of the \<open>try\<close> block: the search alone, or the search, one fetch of
  the ids that the limit leaves, and then the paired writes of the loop.\<close>

lemma sync_try_posted:
  "\<exists>es. trace (snd (sync_try E rq w)) = trace w @ es
      \<and> ((\<forall>j. decode_reply (find_reply E rq w) = Inr j \<longrightarrow> \<not> truthy_json j)
              \<and> posted es = [FindNotes (query rq)]
           \<or> (\<exists>j ws. decode_reply (find_reply E rq w) = Inr j \<and> truthy_json j
                 \<and> posted es = FindNotes (query rq) # NotesInfo (apply_limit (limit rq) j) # ws
                 \<and> list_all is_write ws \<and> paired (source rq) (target rq) ws))"
proof (cases "decode_reply (find_reply E rq w)")
  case (Inl e)
  from sync_try_find_failed(2) [OF this] show ?thesis using Inl by simp
next
  case (Inr j)
  show ?thesis
  proof (cases "truthy_json j")
    case False
    from sync_try_no_notes(2) [OF Inr this] show ?thesis using Inr False by simp
  next
    case True
    let ?a = "NotesInfo (apply_limit (limit rq) j)"
    let ?pre = "[Echo (Searching (query rq)), Post (FindNotes (query rq)) (find_reply E rq w)]"
    from sync_try_found [OF Inr True] obtain w2 where
      w2: "trace w2 = trace w @ ?pre"
        "sync_try E rq w =
             (case invoke E ?a w2 of
                (notes_data, w3) \<Rightarrow>
                  (case notes_data of
                     JNull \<Rightarrow> (Raised TypeError, w3)
                   | JIds js \<Rightarrow>
                       (if js = [] then (Returned, summary (0, 0) w3) else (Raised TypeError, w3))
                   | JNotes ns \<Rightarrow>
                       (case loop E rq ns (0, 0) w3 of
                          (Inl e, w4) \<Rightarrow> (Raised e, w4)
                        | (Inr c, w4) \<Rightarrow> (Returned, summary c w4))))"
      by blast
    obtain nd w3 where i: "invoke E ?a w2 = (nd, w3)" by (cases "invoke E ?a w2")
    obtain es3 where e3: "trace w3 = trace w2 @ Post ?a (post E (trace w2) ?a) # es3" "posted es3 = []"
      using trace_invoke [of E ?a w2] i by auto
    have tail: "\<exists>es4 ws. trace (snd (sync_try E rq w)) = trace w3 @ es4 \<and> posted es4 = ws
                  \<and> list_all is_write ws \<and> paired (source rq) (target rq) ws"
    proof (cases nd)
      case JNull
      then show ?thesis using w2(2) i by simp
    next
      case (JIds js)
      then show ?thesis using w2(2) i trace_summary [of "(0, 0)" w3] by auto
    next
      case (JNotes ns)
      obtain r w4 where l: "loop E rq ns (0, 0) w3 = (r, w4)" by (cases "loop E rq ns (0, 0) w3")
      from loop_events [OF l] obtain es where
        es: "trace w4 = trace w3 @ es" "paired (source rq) (target rq) (posted es)"
          "list_all is_write (posted es)"
        by blast
      show ?thesis
      proof (cases r)
        case (Inl e)
        then show ?thesis using w2(2) i JNotes l es by auto
      next
        case (Inr c)
        obtain es5 where e5: "trace (summary c w4) = trace w4 @ es5" "posted es5 = []"
          using trace_summary by blast
        have "trace (snd (sync_try E rq w)) = trace w3 @ (es @ es5)"
          using w2(2) i JNotes l Inr es(1) e5(1) by simp
        moreover have "posted (es @ es5) = posted es" using e5(2) by (simp add: posted_append)
        ultimately show ?thesis using es(2,3) by metis
      qed
    qed
    then obtain es4 ws where
      t: "trace (snd (sync_try E rq w)) = trace w3 @ es4" "posted es4 = ws"
        "list_all is_write ws" "paired (source rq) (target rq) ws"
      by blast
    let ?es = "?pre @ Post ?a (post E (trace w2) ?a) # es3 @ es4"
    have "trace (snd (sync_try E rq w)) = trace w @ ?es"
      using t(1) e3(1) w2(1) by simp
    moreover have "posted ?es = FindNotes (query rq) # ?a # ws"
      using e3(2) t(2) by (simp add: posted_append)
    ultimately show ?thesis using Inr True t(3,4) by blast
  qed
qed

text \<open>The store actions of a run are those of its \<open>try\<close> block.\<close>

lemma posted_sync:
  assumes "truthy_str (tts_key rq)" and "truthy_str (tts_region rq)"
    and "mkdir E (temp_dir rq) w = Inr w0"
  shows "posted (new_events w (snd (sync E rq w))) = posted (new_events w0 (snd (sync_try E rq w0)))"
proof -
  obtain es where es: "trace (snd (sync_try E rq w0)) = trace w0 @ es"
    using sync_try_posted by blast
  obtain d where d: "trace w0 = trace w @ d" "posted d = []"
    using mkdir_result [OF assms(3)] by auto
  have "trace (snd (sync E rq w))
          = trace w @ (d @ es @ [Echo (CleaningUp (temp_dir rq)), Rmtree (temp_dir rq)])"
    using sync_run(1) [OF assms] es d(1) by simp
  then have "new_events w (snd (sync E rq w))
          = d @ es @ [Echo (CleaningUp (temp_dir rq)), Rmtree (temp_dir rq)]"
    by simp
  moreover have "new_events w0 (snd (sync_try E rq w0)) = es" using es by simp
  ultimately show ?thesis using d(2) by (simp add: posted_append)
qed

lemma removal_ok_fs: "fs w1 = fs w \<Longrightarrow> removal_ok E p w1 = removal_ok E p w"
  by (simp add: removal_ok_def dir_contents_def)

text \<open>The loop of the source takes the notes in the order received.\<close>

lemma process_in_order_raised:
  "foldl (\<lambda>st n. case st of
                   (Inl e, w1) \<Rightarrow> (Inl e, w1)
                 | (Inr c1, w1) \<Rightarrow> process_note E rq n c1 w1)
     (Inl e, w) ns = (Inl e, w)"
  by (induction ns) simp_all

lemma loop_in_order: "loop E rq ns c w = process_in_order E rq ns c w"
proof (induction ns arbitrary: c w)
  case Nil
  then show ?case by (simp add: process_in_order_def)
next
  case (Cons n ns)
  obtain r w1 where p: "process_note E rq n c w = (r, w1)"
    by (cases "process_note E rq n c w")
  show ?case
  proof (cases r)
    case (Inl e)
    then show ?thesis using p by (simp add: process_in_order_def process_in_order_raised)
  next
    case (Inr c1)
    then show ?thesis using p Cons.IH [of c1 w1] by (simp add: process_in_order_def)
  qed
qed

lemma sync_try_fetched:
  assumes "decode_reply (find_reply E rq w) = Inr j0" and "truthy_json j0"
    and "decode_reply (info_reply E rq w (apply_limit (limit rq) j0)) = Inr (JNotes ns)"
  shows "sync_try E rq w
           = finish (loop E rq ns (0, 0) (after_fetch E rq w (apply_limit (limit rq) j0)))"
proof -
  let ?j = "apply_limit (limit rq) j0"
  let ?w1 = "emit (Echo (Searching (query rq))) w"
  let ?w2 = "emit (Post (FindNotes (query rq)) (find_reply E rq w)) ?w1"
  have r1: "post E (trace ?w1) (FindNotes (query rq)) = find_reply E rq w"
    by (simp add: find_reply_def)
  have i1: "invoke E (FindNotes (query rq)) ?w1 = (j0, ?w2)"
    using invoke_ok [of E ?w1 "FindNotes (query rq)" j0] assms(1) r1 by simp
  have r2: "post E (trace ?w2) (NotesInfo ?j) = info_reply E rq w ?j"
    by (simp add: info_reply_def)
  have i2: "invoke E (NotesInfo ?j) ?w2 = (JNotes ns, after_fetch E rq w ?j)"
    using invoke_ok [of E ?w2 "NotesInfo ?j" "JNotes ns"] assms(3) r2 by (simp add: after_fetch_def)
  show ?thesis
    using assms(2) i1 i2 by (simp add: sync_try_def Let_def finish_def split: prod.splits sum.splits)
qed

text \<open>\<open>strip\<close> on blanks that are not ASCII.\<close>

lemma strip_no_break_space: "strip [CHR 0xC2, CHR 0xA0] = []"
  by (simp add: strip_def lstrip_with.simps space_prefix_def whitespace_def)

lemma strip_ideographic_space:
  "strip ([CHR 0xE3, CHR 0x80, CHR 0x80] @ '' a b '' @ [CHR 0xC2, CHR 0x85]) = ''a b''"
  by (simp add: strip_def lstrip_with.simps space_prefix_def whitespace_def)

lemma filter_writes: "list_all is_write ws \<Longrightarrow> filter is_write ws = ws"
  by (induction ws) simp_all

section \<open>The claims\<close>

subsection \<open>C1: a filled target field is left alone\<close>

text \<open>
  C1. When the loop reaches a note whose target field, trimmed, is not empty, and overwrite
  is off, the iteration for that note changes nothing in the world (so it posts no upload
  and no field update and does no synthesis), adds exactly one to the skipped count and
  leaves the updated count as it is, and the loop goes on with the next note. If moreover
  every other note of the batch with the same id is to be skipped too, the whole loop posts
  no field update for that id.
\<close>

theorem skip_leaves_target_unchanged:
  assumes "loop E rq pre c w = (Inr (sc, sk), w1)"
    and "strip (field_value flds (target rq)) \<noteq> []"
    and "\<not> overwrite rq"
  shows "process_note E rq (Note nid flds) (sc, sk) w1 = (Inr (sc, Suc sk), w1)
       \<and> loop E rq (pre @ Note nid flds # rest) c w = loop E rq rest (sc, Suc sk) w1
       \<and> ((\<forall>flds1. Note nid flds1 \<in> set (pre @ rest) \<longrightarrow>
               strip (field_value flds1 (target rq)) \<noteq> []) \<longrightarrow>
            (\<forall>f v. UpdateNoteFields nid f v
               \<notin> set (posted (new_events w (snd (loop E rq (pre @ Note nid flds # rest) c w))))))"
proof -
  have step: "process_note E rq (Note nid flds) (sc, sk) w1 = (Inr (sc, Suc sk), w1)"
    using assms(2,3) by (simp add: process_note_def)
  have cont: "loop E rq (pre @ Note nid flds # rest) c w = loop E rq rest (sc, Suc sk) w1"
    using assms(1) step by (simp add: loop_append)
  have "\<forall>f v. UpdateNoteFields nid f v
               \<notin> set (posted (new_events w (snd (loop E rq (pre @ Note nid flds # rest) c w))))"
    if all: "\<forall>flds1. Note nid flds1 \<in> set (pre @ rest) \<longrightarrow>
               strip (field_value flds1 (target rq)) \<noteq> []"
  proof -
    let ?ns = "pre @ Note nid flds # rest"
    obtain r w2 where l: "loop E rq ?ns c w = (r, w2)" by (cases "loop E rq ?ns c w")
    from loop_events [OF l] obtain es where
      es: "trace w2 = trace w @ es"
        "\<forall>i f v. UpdateNoteFields i f v \<in> set (posted es) \<longrightarrow>
              (\<exists>flds. Note i flds \<in> set ?ns \<and> (strip (field_value flds (target rq)) = [] \<or> overwrite rq))"
      by blast
    have "new_events w w2 = es" using es(1) by simp
    moreover have "\<forall>f v. UpdateNoteFields nid f v \<notin> set (posted es)"
      using es(2) all assms(2,3) by auto
    ultimately show ?thesis using l by simp
  qed
  with step cont show ?thesis by blast
qed

theorem skip_leaves_target_unchanged_witness:
  "loop env_filled_first example_request
      ([] @ Note 1 [(''Front'', ''hello''), (''Audio'', ''[sound:old.mp3]'')] # [flashcard 2 ''bye'' []])
      (0, 0) ready_world
   = loop env_filled_first example_request [flashcard 2 ''bye'' []] (0, 1) ready_world
   \<and> (\<forall>f v. UpdateNoteFields 1 f v \<notin> set (posted (new_events ready_world
        (snd (loop env_filled_first example_request
          ([] @ Note 1 [(''Front'', ''hello''), (''Audio'', ''[sound:old.mp3]'')] # [flashcard 2 ''bye'' []])
          (0, 0) ready_world)))))"
proof -
  let ?flds = "[(''Front'', ''hello''), (''Audio'', ''[sound:old.mp3]'')]"
  have h1: "loop env_filled_first example_request [] (0, 0) ready_world = (Inr (0, 0), ready_world)"
    by simp
  have h2: "strip (field_value ?flds (target example_request)) \<noteq> []"
    by (simp add: run_defs)
  have h3: "\<not> overwrite example_request" by (simp add: example_request_def)
  have h4: "\<forall>flds1. Note 1 flds1 \<in> set ([] @ [flashcard 2 ''bye'' []]) \<longrightarrow>
      strip (field_value flds1 (target example_request)) \<noteq> []"
    by (simp add: flashcard_def)
  from skip_leaves_target_unchanged [OF h1 h2 h3, of 1 "[flashcard 2 ''bye'' []]"] h4
  show ?thesis unfolding One_nat_def by blast
qed

subsection \<open>C2: the removal of the temporary directory\<close>

text \<open>
  C2, as the claim states it, fails: with the current directory as the temporary directory
  and a search that matches nothing, the \<open>finally\<close> block empties the directory, the
  removal raises, the run ends with an \<open>OSError\<close> and the directory is still there.
\<close>

theorem temp_dir_left_counterexample:
  "fs world_cwd ''.'' = Some (Dir [(''deck.apkg'', ''x'')])
   \<and> fst (sync env_cwd request_cwd world_cwd) = Raised OSError
   \<and> fs (snd (sync env_cwd request_cwd world_cwd)) ''.'' = Some (Dir [])"
  by (simp add: env_cwd_def request_cwd_def world_cwd_def env_no_notes_def run_defs)

text \<open>
  C2, amended. A run that lacks a credential returns after its message and changes
  nothing; a run whose creation of the directory raises ends with that error and changes
  nothing. Every other run is the \<open>try\<close> block followed by the message and the call of
  the removal as its last two events, whatever the outcome of the \<open>try\<close> block is (a
  normal return, the return on an empty result, or any error raised). When the removal
  succeeds, the directory with all it holds is gone and the outcome is that of the
  \<open>try\<close> block; when it raises, the run ends with an \<open>OSError\<close> and the directory is left.
\<close>

theorem finally_calls_rmtree_on_every_try_exit:
  "(\<not> (truthy_str (tts_key rq) \<and> truthy_str (tts_region rq)) \<longrightarrow>
      sync E rq w = (Returned, emit (Echo MissingCredentials) w))
   \<and> (\<forall>e. truthy_str (tts_key rq) \<and> truthy_str (tts_region rq) \<and> mkdir E (temp_dir rq) w = Inl e \<longrightarrow>
      sync E rq w = (Raised e, w))
   \<and> (\<forall>w0. truthy_str (tts_key rq) \<and> truthy_str (tts_region rq) \<and> mkdir E (temp_dir rq) w = Inr w0 \<longrightarrow>
      trace (snd (sync E rq w))
        = trace (snd (sync_try E rq w0)) @ [Echo (CleaningUp (temp_dir rq)), Rmtree (temp_dir rq)]
      \<and> (removal_ok E (temp_dir rq) (snd (sync_try E rq w0)) \<longrightarrow>
           fst (sync E rq w) = fst (sync_try E rq w0)
           \<and> fs (snd (sync E rq w)) (temp_dir rq) = None)
      \<and> (\<not> removal_ok E (temp_dir rq) (snd (sync_try E rq w0)) \<longrightarrow>
           fst (sync E rq w) = Raised OSError
           \<and> fs (snd (sync E rq w)) (temp_dir rq) \<noteq> None))"
proof (intro conjI allI impI)
  assume "\<not> (truthy_str (tts_key rq) \<and> truthy_str (tts_region rq))"
  then show "sync E rq w = (Returned, emit (Echo MissingCredentials) w)"
    by (auto simp: sync_def)
next
  fix e
  assume "truthy_str (tts_key rq) \<and> truthy_str (tts_region rq) \<and> mkdir E (temp_dir rq) w = Inl e"
  then show "sync E rq w = (Raised e, w)" by (simp add: sync_def)
next
  fix w0
  assume a: "truthy_str (tts_key rq) \<and> truthy_str (tts_region rq) \<and> mkdir E (temp_dir rq) w = Inr w0"
  then have k: "truthy_str (tts_key rq)" and r: "truthy_str (tts_region rq)"
    and m: "mkdir E (temp_dir rq) w = Inr w0"
    by simp_all
  show "trace (snd (sync E rq w))
        = trace (snd (sync_try E rq w0)) @ [Echo (CleaningUp (temp_dir rq)), Rmtree (temp_dir rq)]"
    using sync_run(1) [OF k r m] .
  {
    assume ok: "removal_ok E (temp_dir rq) (snd (sync_try E rq w0))"
    show "fst (sync E rq w) = fst (sync_try E rq w0)"
      using sync_run(2) [OF k r m ok] by simp
    show "fs (snd (sync E rq w)) (temp_dir rq) = None"
      using sync_run(2) [OF k r m ok] by simp
  }
  {
    assume no: "\<not> removal_ok E (temp_dir rq) (snd (sync_try E rq w0))"
    show "fst (sync E rq w) = Raised OSError"
      using sync_run(3) [OF k r m no] by simp
    show "fs (snd (sync E rq w)) (temp_dir rq) \<noteq> None"
      using sync_run(3) [OF k r m no] by auto
  }
qed

text \<open>The four ways out: no key; a directory that cannot be created; a \<open>try\<close> block
  aborted by an error, with a removal that succeeds; a removal that raises.\<close>

theorem finally_calls_rmtree_on_every_try_exit_witness:
  "sync env_no_notes request_no_key world_with_files
     = (Returned, emit (Echo MissingCredentials) world_with_files)
   \<and> sync env_parent_file example_request empty_world = (Raised NotADirectoryError, empty_world)
   \<and> (fst (sync env_info_refused example_request empty_world) = Raised TypeError
      \<and> fs (snd (sync env_info_refused example_request empty_world)) ''temp_audios'' = None
      \<and> last (trace (snd (sync env_info_refused example_request empty_world))) = Rmtree ''temp_audios'')
   \<and> (fst (sync env_cwd request_cwd world_cwd) = Raised OSError
      \<and> fs (snd (sync env_cwd request_cwd world_cwd)) ''.'' \<noteq> None)"
proof -
  let ?w0 = "emit (DirCreated ''temp_audios'')
               (empty_world\<lparr>fs := (fs empty_world)(''temp_audios'' \<mapsto> Dir [])\<rparr>)"
  have a0: "\<not> (truthy_str (tts_key request_no_key) \<and> truthy_str (tts_region request_no_key))"
    by (simp add: request_no_key_def run_defs)
  have a: "sync env_no_notes request_no_key world_with_files
     = (Returned, emit (Echo MissingCredentials) world_with_files)"
    using finally_calls_rmtree_on_every_try_exit [of request_no_key env_no_notes world_with_files] a0
    by blast
  have b0: "truthy_str (tts_key example_request) \<and> truthy_str (tts_region example_request)
      \<and> mkdir env_parent_file (temp_dir example_request) empty_world = Inl NotADirectoryError"
    by (simp add: env_parent_file_def env_no_notes_def run_defs)
  have b: "sync env_parent_file example_request empty_world = (Raised NotADirectoryError, empty_world)"
    using finally_calls_rmtree_on_every_try_exit [of example_request env_parent_file empty_world] b0
    by blast
  have c0: "truthy_str (tts_key example_request) \<and> truthy_str (tts_region example_request)
      \<and> mkdir env_info_refused (temp_dir example_request) empty_world = Inr ?w0"
    by (simp add: env_info_refused_def mkdir_def scripted_env_def example_request_def
        empty_world_def truthy_str_def)
  have c1: "removal_ok env_info_refused (temp_dir example_request)
              (snd (sync_try env_info_refused example_request ?w0))"
    by (simp add: removal_ok_def env_info_refused_def scripted_env_def)
  have c2: "fst (sync_try env_info_refused example_request ?w0) = Raised TypeError"
    by (simp add: env_info_refused_def run_defs)
  have c: "fst (sync env_info_refused example_request empty_world) = Raised TypeError
      \<and> fs (snd (sync env_info_refused example_request empty_world)) ''temp_audios'' = None
      \<and> last (trace (snd (sync env_info_refused example_request empty_world))) = Rmtree ''temp_audios''"
    using finally_calls_rmtree_on_every_try_exit [of example_request env_info_refused empty_world]
      c0 c1 c2
    by (simp add: example_request_def)
  have d0: "truthy_str (tts_key request_cwd) \<and> truthy_str (tts_region request_cwd)
      \<and> mkdir env_cwd (temp_dir request_cwd) world_cwd = Inr world_cwd"
    by (simp add: request_cwd_def world_cwd_def mkdir_def example_request_def truthy_str_def)
  have d1: "\<not> removal_ok env_cwd (temp_dir request_cwd) (snd (sync_try env_cwd request_cwd world_cwd))"
    by (simp add: removal_ok_def env_cwd_def request_cwd_def)
  have d: "fst (sync env_cwd request_cwd world_cwd) = Raised OSError
      \<and> fs (snd (sync env_cwd request_cwd world_cwd)) ''.'' \<noteq> None"
    using finally_calls_rmtree_on_every_try_exit [of request_cwd env_cwd world_cwd] d0 d1
    by (simp add: request_cwd_def)
  show ?thesis using a b c d by blast
qed

subsection \<open>C3: the uploaded file name is the one in the sound tag\<close>

text \<open>
  C3. In every run, the writing store actions are a sequence of pairs, an upload followed
  at once by a field update; in each pair the uploaded file name is the name derived from
  the source field name and the id of the updated note, the field written is the target
  field, and the value written is \<open>[sound:\<close> followed by that same file name and
  \<open>]\<close>. The derived name is \<open>azv_\<close>, the source field name, \<open>_\<close>, the id in decimal
  and \<open>.mp3\<close>.
\<close>

theorem upload_name_matches_sound_tag:
  "paired (source rq) (target rq) (filter is_write (posted (new_events w (snd (sync E rq w)))))
   \<and> file_name (source rq) i = ''azv_'' @ source rq @ ''_'' @ str_int i @ ''.mp3''"
proof -
  let ?ps = "posted (new_events w (snd (sync E rq w)))"
  have "paired (source rq) (target rq) (filter is_write ?ps)"
  proof (cases "truthy_str (tts_key rq) \<and> truthy_str (tts_region rq)")
    case False
    then have "sync E rq w = (Returned, emit (Echo MissingCredentials) w)"
      by (auto simp: sync_def)
    then have "new_events w (snd (sync E rq w)) = [Echo MissingCredentials]" by simp
    then show ?thesis by simp
  next
    case creds: True
    show ?thesis
    proof (cases "mkdir E (temp_dir rq) w")
      case (Inl e)
      then have "sync E rq w = (Raised e, w)" using creds by (simp add: sync_def)
      then have "new_events w (snd (sync E rq w)) = []" by (simp add: new_events_def)
      then show ?thesis by simp
    next
      case (Inr w0)
      have eq: "?ps = posted (new_events w0 (snd (sync_try E rq w0)))"
        using creds Inr by (simp add: posted_sync)
      from sync_try_posted [of E rq w0] obtain es where
        es: "trace (snd (sync_try E rq w0)) = trace w0 @ es"
          "posted es = [FindNotes (query rq)]
           \<or> (\<exists>j ws. posted es = FindNotes (query rq) # NotesInfo (apply_limit (limit rq) j) # ws
                 \<and> list_all is_write ws \<and> paired (source rq) (target rq) ws)"
        by blast
      have ps: "?ps = posted es" using eq es(1) by simp
      from es(2) show ?thesis
      proof
        assume "posted es = [FindNotes (query rq)]"
        then show ?thesis using ps by simp
      next
        assume "\<exists>j ws. posted es = FindNotes (query rq) # NotesInfo (apply_limit (limit rq) j) # ws
                 \<and> list_all is_write ws \<and> paired (source rq) (target rq) ws"
        then obtain j ws where
          ws: "posted es = FindNotes (query rq) # NotesInfo (apply_limit (limit rq) j) # ws"
            "list_all is_write ws" "paired (source rq) (target rq) ws"
          by blast
        have "filter is_write ?ps = ws" using ps ws(1,2) by (simp add: filter_writes)
        then show ?thesis using ws(3) by simp
      qed
    qed
  qed
  then show ?thesis by (simp add: file_name_def)
qed

theorem upload_name_matches_sound_tag_witness:
  "paired ''Front'' ''Audio''
     [StoreMediaFile ''azv_Front_2.mp3'' ''mp3:bye'',
      UpdateNoteFields 2 ''Audio'' ''[sound:azv_Front_2.mp3]'']
   \<and> file_name ''Front'' 2 = ''azv_Front_2.mp3''"
proof -
  have tr: "trace (snd (sync env_filled_first example_request empty_world))
      = [DirCreated ''temp_audios'', Echo (Searching ''deck:Default''),
         Post (FindNotes ''deck:Default'') (Envelope None (JIds [1, 2])),
         Post (NotesInfo (JIds [1, 2]))
           (Envelope None
             (JNotes [Note 1 [(''Front'', ''hello''), (''Audio'', ''[sound:old.mp3]'')],
                      Note 2 [(''Front'', ''bye''), (''Audio'', [])]])),
         Speak None ''bye'' ''temp_audios'' ''azv_Front_2.mp3'',
         Post (StoreMediaFile ''azv_Front_2.mp3'' ''mp3:bye'') (Envelope None JNull),
         Post (UpdateNoteFields 2 ''Audio'' ''[sound:azv_Front_2.mp3]'') (Envelope None JNull),
         Sleep, Echo (Completed 1), Echo (SkippedNotes 1),
         Echo (CleaningUp ''temp_audios''), Rmtree ''temp_audios'']"
    by (simp add: env_filled_first_def run_defs)
  have run: "filter is_write (posted (new_events empty_world
               (snd (sync env_filled_first example_request empty_world))))
      = [StoreMediaFile ''azv_Front_2.mp3'' ''mp3:bye'',
         UpdateNoteFields 2 ''Audio'' ''[sound:azv_Front_2.mp3]'']"
    unfolding new_events_def tr by (simp add: empty_world_def)
  have s: "source example_request = ''Front''" "target example_request = ''Audio''"
    by (simp_all add: example_request_def)
  have f: "file_name ''Front'' 2 = ''azv_Front_2.mp3''"
    by (simp add: file_name_def str_int_def)
  from upload_name_matches_sound_tag [of example_request empty_world env_filled_first 2]
  have "paired ''Front'' ''Audio''
     [StoreMediaFile ''azv_Front_2.mp3'' ''mp3:bye'',
      UpdateNoteFields 2 ''Audio'' ''[sound:azv_Front_2.mp3]'']"
    unfolding run s by (rule conjunct1)
  then show ?thesis using f by (rule conjI)
qed

subsection \<open>C4: a failed synthesis\<close>

text \<open>
  C4, as the claim states it, fails: with two notes to speak and the speech service failing
  on the second, the run returns normally and prints three messages, the search, the count
  of one update and the cleanup. Nothing in the report mentions the second note.
\<close>

theorem synthesis_failure_unreported_counterexample:
  "speak env_one_failure [] None ''bye'' ''temp_audios'' ''azv_Front_2.mp3'' = SpeakResult False None
   \<and> fst (sync env_one_failure example_request empty_world) = Returned
   \<and> echoed (trace (snd (sync env_one_failure example_request empty_world)))
       = [Searching ''deck:Default'', Completed 1, CleaningUp ''temp_audios'']"
  by (simp add: env_one_failure_def run_defs)

text \<open>
  C4, amended. When the loop reaches a note that is not to be skipped and has text to
  speak, and the speech service returns a result other than completed, the iteration for
  that note emits the synthesis call and nothing else (no upload, no field update, no
  message), leaves both counts as they are, and the loop goes on with the next note.
\<close>

theorem synthesis_failure_continues:
  assumes "loop E rq pre c w = (Inr (sc, sk), w1)"
    and "strip (field_value flds (target rq)) = [] \<or> overwrite rq"
    and "clean_html E (strip (field_value flds (source rq))) = t" and "t \<noteq> []"
    and "speak E (trace w1) (voice rq) t (temp_dir rq) (file_name (source rq) nid)
           = SpeakResult False written"
  shows "\<exists>w2. process_note E rq (Note nid flds) (sc, sk) w1 = (Inr (sc, sk), w2)
          \<and> trace w2 = trace w1 @ [Speak (voice rq) t (temp_dir rq) (file_name (source rq) nid)]
          \<and> loop E rq (pre @ Note nid flds # rest) c w = loop E rq rest (sc, sk) w2"
proof -
  obtain w2 where t: "text_to_mp3 E (voice rq) t (temp_dir rq) (file_name (source rq) nid) w1
                       = (Inr False, w2)"
    using assms(5) by (simp add: text_to_mp3_def Let_def)
  have step: "process_note E rq (Note nid flds) (sc, sk) w1 = (Inr (sc, sk), w2)"
    using assms(2,3,4) t by (auto simp: process_note_def Let_def)
  have "trace w2 = trace w1 @ [Speak (voice rq) t (temp_dir rq) (file_name (source rq) nid)]"
    using t by (rule trace_text_to_mp3)
  moreover have "loop E rq (pre @ Note nid flds # rest) c w = loop E rq rest (sc, sk) w2"
    using assms(1) step by (simp add: loop_append)
  ultimately show ?thesis using step by blast
qed

theorem synthesis_failure_continues_witness:
  "fst (loop env_one_failure example_request
          ([flashcard 1 ''hello'' []] @ Note 2 [(''Front'', ''bye''), (''Audio'', [])] # [])
          (0, 0) ready_world) = Inr (1, 0)"
proof -
  let ?E = "env_one_failure"
  let ?w1 = "snd (loop ?E example_request [flashcard 1 ''hello'' []] (0, 0) ready_world)"
  let ?flds = "[(''Front'', ''bye''), (''Audio'', [])]"
  have h1: "loop ?E example_request [flashcard 1 ''hello'' []] (0, 0) ready_world = (Inr (1, 0), ?w1)"
    by (simp add: prod_eq_iff env_one_failure_def run_defs)
  have h2: "strip (field_value ?flds (target example_request)) = [] \<or> overwrite example_request"
    by (simp add: run_defs)
  have h3: "clean_html ?E (strip (field_value ?flds (source example_request))) = ''bye''"
    by (simp add: env_one_failure_def run_defs)
  have h4: "''bye'' \<noteq> []" by simp
  have h5: "speak ?E (trace ?w1) (voice example_request) ''bye'' (temp_dir example_request)
              (file_name (source example_request) 2) = SpeakResult False None"
    by (simp add: env_one_failure_def scripted_env_def speaks_except_def)
  from synthesis_failure_continues [OF h1 h2 h3 h4 h5, of "[]"]
  show ?thesis by auto
qed

subsection \<open>C5: nothing to speak\<close>

text \<open>
  C5, as the claim states it, fails: the check of the target field comes first, so a note
  whose source field has nothing to speak and whose target field is filled is counted as
  skipped when overwrite is off.
\<close>

theorem empty_source_counted_counterexample:
  "clean_html env_filled_blank
      (strip (field_value [(''Front'', []), (''Audio'', ''[sound:old.mp3]'')] (source example_request))) = []
   \<and> echoed (trace (snd (sync env_filled_blank example_request empty_world)))
     = [Searching ''deck:Default'', Completed 0, SkippedNotes 1, CleaningUp ''temp_audios'']"
  by (simp add: env_filled_blank_def run_defs)

text \<open>
  C5, amended. When the loop reaches a note that is not skipped by the check of the target
  field (the field, trimmed, is empty, or overwrite is on) and whose source field sanitizes
  to the empty text, the iteration for that note changes nothing in the world and leaves
  both counts as they are, and the loop goes on with the next note.
\<close>

theorem empty_source_not_counted:
  assumes "loop E rq pre c w = (Inr (sc, sk), w1)"
    and "strip (field_value flds (target rq)) = [] \<or> overwrite rq"
    and "clean_html E (strip (field_value flds (source rq))) = []"
  shows "process_note E rq (Note nid flds) (sc, sk) w1 = (Inr (sc, sk), w1)
       \<and> loop E rq (pre @ Note nid flds # rest) c w = loop E rq rest (sc, sk) w1"
proof -
  have step: "process_note E rq (Note nid flds) (sc, sk) w1 = (Inr (sc, sk), w1)"
    using assms(2,3) by (auto simp: process_note_def)
  then show ?thesis using assms(1) by (simp add: loop_append)
qed

theorem empty_source_not_counted_witness:
  "loop env_blank_first example_request
      ([] @ Note 1 [(''Front'', ''  ''), (''Audio'', [])] # [flashcard 2 ''bye'' []]) (0, 0) ready_world
   = loop env_blank_first example_request [flashcard 2 ''bye'' []] (0, 0) ready_world
   \<and> fst (loop env_blank_first example_request [flashcard 2 ''bye'' []] (0, 0) ready_world)
     = Inr (1, 0)"
proof -
  let ?flds = "[(''Front'', ''  ''), (''Audio'', [])]"
  have h1: "loop env_blank_first example_request [] (0, 0) ready_world = (Inr (0, 0), ready_world)"
    by simp
  have h2: "strip (field_value ?flds (target example_request)) = [] \<or> overwrite example_request"
    by (simp add: run_defs)
  have h3: "clean_html env_blank_first (strip (field_value ?flds (source example_request))) = []"
    by (simp add: env_blank_first_def run_defs)
  have h4: "fst (loop env_blank_first example_request [flashcard 2 ''bye'' []] (0, 0) ready_world)
     = Inr (1, 0)"
    by (simp add: env_blank_first_def run_defs)
  from empty_source_not_counted [OF h1 h2 h3, of 1 "[flashcard 2 ''bye'' []]"] h4
  show ?thesis by blast
qed

subsection \<open>C6: a store failure on the search or on the fetch\<close>

text \<open>
  C6, as the claim states it, fails for the search: when the store cannot be reached, the
  store client prints its message and gives back nothing, and the run goes the way of an
  empty result: it prints that no notes match and returns normally, with the same outcome
  as a run whose search matches nothing.
\<close>

theorem find_failure_treated_as_empty_counterexample:
  "fst (sync env_find_refused example_request empty_world) = Returned
   \<and> fst (sync env_find_refused example_request empty_world)
       = fst (sync env_no_notes example_request empty_world)
   \<and> trace (snd (sync env_find_refused example_request empty_world))
       = [DirCreated ''temp_audios'', Echo (Searching ''deck:Default''),
          Post (FindNotes ''deck:Default'') (ConnectionFailed ''refused''),
          Echo (AnkiUnavailable ''refused''), Echo NoMatchingNotes,
          Echo (CleaningUp ''temp_audios''), Rmtree ''temp_audios'']"
  by (simp add: env_find_refused_def env_no_notes_def run_defs)

text \<open>
  C6, amended. When the search fails, the store client prints its error message and the
  run goes on as for an empty result: it prints that no notes match and calls the removal
  of the temporary directory; nothing else is posted or spoken, and the run returns
  normally when the removal succeeds. When the search gives ids and the fetch fails, the
  store client prints its error message and the loop raises a \<open>TypeError\<close> at once; the
  removal of the temporary directory is called, nothing else is posted or spoken, and the
  run ends with the \<open>TypeError\<close> when the removal succeeds. In both cases a removal that
  raises ends the run with an \<open>OSError\<close>.
\<close>

theorem store_failure_on_find_or_fetch:
  assumes "truthy_str (tts_key rq)" and "truthy_str (tts_region rq)"
    and "mkdir E (temp_dir rq) w = Inr w0"
  shows "(\<forall>e. decode_reply (find_reply E rq w0) = Inl e \<longrightarrow>
            trace (snd (sync E rq w))
                = trace w0 @ [Echo (Searching (query rq)),
                     Post (FindNotes (query rq)) (find_reply E rq w0),
                     Echo (AnkiUnavailable e), Echo NoMatchingNotes,
                     Echo (CleaningUp (temp_dir rq)), Rmtree (temp_dir rq)]
            \<and> fst (sync E rq w)
                = (if removal_ok E (temp_dir rq) w0 then Returned else Raised OSError))
       \<and> (\<forall>j e. decode_reply (find_reply E rq w0) = Inr j \<and> truthy_json j
                \<and> decode_reply (info_reply E rq w0 (apply_limit (limit rq) j)) = Inl e \<longrightarrow>
            trace (snd (sync E rq w))
                = trace w0 @ [Echo (Searching (query rq)),
                     Post (FindNotes (query rq)) (find_reply E rq w0),
                     Post (NotesInfo (apply_limit (limit rq) j))
                       (info_reply E rq w0 (apply_limit (limit rq) j)),
                     Echo (AnkiUnavailable e),
                     Echo (CleaningUp (temp_dir rq)), Rmtree (temp_dir rq)]
            \<and> fst (sync E rq w)
                = (if removal_ok E (temp_dir rq) w0 then Raised TypeError else Raised OSError))"
proof (intro conjI allI impI)
  fix e
  assume f: "decode_reply (find_reply E rq w0) = Inl e"
  have ok: "removal_ok E (temp_dir rq) (snd (sync_try E rq w0)) = removal_ok E (temp_dir rq) w0"
    using sync_try_find_failed(3) [OF f] by (rule removal_ok_fs)
  show "trace (snd (sync E rq w))
                = trace w0 @ [Echo (Searching (query rq)),
                     Post (FindNotes (query rq)) (find_reply E rq w0),
                     Echo (AnkiUnavailable e), Echo NoMatchingNotes,
                     Echo (CleaningUp (temp_dir rq)), Rmtree (temp_dir rq)]"
    using sync_run(1) [OF assms] sync_try_find_failed(2) [OF f] by simp
  show "fst (sync E rq w) = (if removal_ok E (temp_dir rq) w0 then Returned else Raised OSError)"
    using sync_run(2,3) [OF assms] ok sync_try_find_failed(1) [OF f] by auto
next
  fix j e
  assume a: "decode_reply (find_reply E rq w0) = Inr j \<and> truthy_json j
                \<and> decode_reply (info_reply E rq w0 (apply_limit (limit rq) j)) = Inl e"
  then have f: "decode_reply (find_reply E rq w0) = Inr j" and t: "truthy_json j"
    and g: "decode_reply (info_reply E rq w0 (apply_limit (limit rq) j)) = Inl e"
    by simp_all
  have ok: "removal_ok E (temp_dir rq) (snd (sync_try E rq w0)) = removal_ok E (temp_dir rq) w0"
    using sync_try_info_failed(3) [OF f t g] by (rule removal_ok_fs)
  show "trace (snd (sync E rq w))
                = trace w0 @ [Echo (Searching (query rq)),
                     Post (FindNotes (query rq)) (find_reply E rq w0),
                     Post (NotesInfo (apply_limit (limit rq) j))
                       (info_reply E rq w0 (apply_limit (limit rq) j)),
                     Echo (AnkiUnavailable e),
                     Echo (CleaningUp (temp_dir rq)), Rmtree (temp_dir rq)]"
    using sync_run(1) [OF assms] sync_try_info_failed(2) [OF f t g] by simp
  show "fst (sync E rq w) = (if removal_ok E (temp_dir rq) w0 then Raised TypeError else Raised OSError)"
    using sync_run(2,3) [OF assms] ok sync_try_info_failed(1) [OF f t g] by auto
qed

theorem store_failure_on_find_or_fetch_witness:
  "(fst (sync env_find_refused example_request empty_world) = Returned
    \<and> echoed (trace (snd (sync env_find_refused example_request empty_world)))
        = [Searching ''deck:Default'', AnkiUnavailable ''refused'', NoMatchingNotes,
           CleaningUp ''temp_audios''])
   \<and> (fst (sync env_info_refused example_request empty_world) = Raised TypeError
    \<and> echoed (trace (snd (sync env_info_refused example_request empty_world)))
        = [Searching ''deck:Default'', AnkiUnavailable ''AnkiConnect Error: busy'',
           CleaningUp ''temp_audios''])"
proof -
  let ?w0 = "emit (DirCreated ''temp_audios'')
               (empty_world\<lparr>fs := (fs empty_world)(''temp_audios'' \<mapsto> Dir [])\<rparr>)"
  have h1: "truthy_str (tts_key example_request)" by (simp add: run_defs)
  have h2: "truthy_str (tts_region example_request)" by (simp add: run_defs)
  have m1: "mkdir env_find_refused (temp_dir example_request) empty_world = Inr ?w0"
    by (simp add: env_find_refused_def mkdir_def scripted_env_def example_request_def empty_world_def)
  have m2: "mkdir env_info_refused (temp_dir example_request) empty_world = Inr ?w0"
    by (simp add: env_info_refused_def mkdir_def scripted_env_def example_request_def empty_world_def)
  have o1: "removal_ok env_find_refused (temp_dir example_request) ?w0"
    by (simp add: removal_ok_def env_find_refused_def scripted_env_def)
  have o2: "removal_ok env_info_refused (temp_dir example_request) ?w0"
    by (simp add: removal_ok_def env_info_refused_def scripted_env_def)
  have f1: "decode_reply (find_reply env_find_refused example_request ?w0) = Inl ''refused''"
    by (simp add: env_find_refused_def find_reply_def scripted_env_def decode_reply_def)
  have f2: "decode_reply (find_reply env_info_refused example_request ?w0) = Inr (JIds [1, 2])
      \<and> truthy_json (JIds [1, 2])
      \<and> decode_reply (info_reply env_info_refused example_request ?w0
            (apply_limit (limit example_request) (JIds [1, 2]))) = Inl ''AnkiConnect Error: busy''"
    by (simp add: env_info_refused_def find_reply_def info_reply_def scripted_env_def
        decode_reply_def canned_post_def truthy_json_def apply_limit_def example_request_def)
  have a: "trace (snd (sync env_find_refused example_request empty_world))
        = trace ?w0 @ [Echo (Searching (query example_request)),
             Post (FindNotes (query example_request)) (find_reply env_find_refused example_request ?w0),
             Echo (AnkiUnavailable ''refused''), Echo NoMatchingNotes,
             Echo (CleaningUp (temp_dir example_request)), Rmtree (temp_dir example_request)]
    \<and> fst (sync env_find_refused example_request empty_world) = Returned"
    using store_failure_on_find_or_fetch [OF h1 h2 m1] f1 o1 by simp
  have b: "trace (snd (sync env_info_refused example_request empty_world))
        = trace ?w0 @ [Echo (Searching (query example_request)),
             Post (FindNotes (query example_request)) (find_reply env_info_refused example_request ?w0),
             Post (NotesInfo (apply_limit (limit example_request) (JIds [1, 2])))
               (info_reply env_info_refused example_request ?w0
                  (apply_limit (limit example_request) (JIds [1, 2]))),
             Echo (AnkiUnavailable ''AnkiConnect Error: busy''),
             Echo (CleaningUp (temp_dir example_request)), Rmtree (temp_dir example_request)]
    \<and> fst (sync env_info_refused example_request empty_world) = Raised TypeError"
    using store_failure_on_find_or_fetch [OF h1 h2 m2] f2 o2 by simp
  have ea: "echoed (trace (snd (sync env_find_refused example_request empty_world)))
        = [Searching ''deck:Default'', AnkiUnavailable ''refused'', NoMatchingNotes,
           CleaningUp ''temp_audios'']"
    using a by (simp add: example_request_def empty_world_def)
  have eb: "echoed (trace (snd (sync env_info_refused example_request empty_world)))
        = [Searching ''deck:Default'', AnkiUnavailable ''AnkiConnect Error: busy'',
           CleaningUp ''temp_audios'']"
    using b by (simp add: example_request_def empty_world_def)
  show ?thesis using a b ea eb by blast
qed

subsection \<open>C7: the limit\<close>

text \<open>
  C7, as the claim states it, fails: a limit of zero is not treated as a limit. With five
  notes found and a limit of zero, all five ids are fetched and all five notes are updated.
\<close>

theorem limit_zero_counterexample:
  "filter (\<lambda>a. \<not> is_write a)
     (posted (trace (snd (sync env_five_notes (example_request\<lparr>limit := Some 0\<rparr>) empty_world))))
     = [FindNotes ''deck:Default'', NotesInfo (JIds [11, 12, 13, 14, 15])]
   \<and> echoed (trace (snd (sync env_five_notes (example_request\<lparr>limit := Some 0\<rparr>) empty_world)))
     = [Searching ''deck:Default'', Completed 5, CleaningUp ''temp_audios'']"
  by (simp add: env_five_notes_def run_defs)

text \<open>
  C7, amended. For every limit \<open>n\<close> of at least one and every non-empty list of ids that
  the search returns, the store actions of the run are the search, then one fetch of the
  first \<open>min n (length ids)\<close> ids in the order the store returned them, then writes only;
  and when the fetch is answered with notes, the \<open>try\<close> block is the processing of
  exactly these notes, one after the other in the order received, from the world in which
  the fetch has happened, followed by the summary.
\<close>

theorem limit_takes_first_ids:
  assumes "truthy_str (tts_key rq)" and "truthy_str (tts_region rq)"
    and "mkdir E (temp_dir rq) w = Inr w0"
    and "limit rq = Some n" and "0 < n"
    and "decode_reply (find_reply E rq w0) = Inr (JIds ids)" and "ids \<noteq> []"
  shows "(\<exists>ws. posted (new_events w (snd (sync E rq w)))
              = FindNotes (query rq) # NotesInfo (JIds (take (nat n) ids)) # ws
            \<and> list_all is_write ws)
       \<and> length (take (nat n) ids) = min (nat n) (length ids)
       \<and> (\<forall>ns. decode_reply (info_reply E rq w0 (JIds (take (nat n) ids))) = Inr (JNotes ns) \<longrightarrow>
             sync_try E rq w0
               = finish (process_in_order E rq ns (0, 0)
                          (after_fetch E rq w0 (JIds (take (nat n) ids)))))"
proof -
  have lim: "apply_limit (limit rq) (JIds ids) = JIds (take (nat n) ids)"
    using assms(4,5) by (simp add: apply_limit_def slice_json_def py_slice_def)
  have tr: "truthy_json (JIds ids)" using assms(7) by (simp add: truthy_json_def)
  from sync_try_posted [of E rq w0] obtain es where
    es: "trace (snd (sync_try E rq w0)) = trace w0 @ es"
      "(\<forall>j. decode_reply (find_reply E rq w0) = Inr j \<longrightarrow> \<not> truthy_json j)
              \<and> posted es = [FindNotes (query rq)]
           \<or> (\<exists>j ws. decode_reply (find_reply E rq w0) = Inr j \<and> truthy_json j
                 \<and> posted es = FindNotes (query rq) # NotesInfo (apply_limit (limit rq) j) # ws
                 \<and> list_all is_write ws \<and> paired (source rq) (target rq) ws)"
    by blast
  from es(2) assms(6) tr obtain ws where
    ws: "posted es = FindNotes (query rq) # NotesInfo (apply_limit (limit rq) (JIds ids)) # ws"
      "list_all is_write ws"
    by auto
  have "posted (new_events w (snd (sync E rq w))) = posted es"
    using posted_sync [OF assms(1,2,3)] es(1) by simp
  then have first: "\<exists>ws. posted (new_events w (snd (sync E rq w)))
              = FindNotes (query rq) # NotesInfo (JIds (take (nat n) ids)) # ws
            \<and> list_all is_write ws"
    using ws lim by simp
  have third: "sync_try E rq w0
               = finish (process_in_order E rq ns (0, 0)
                          (after_fetch E rq w0 (JIds (take (nat n) ids))))"
    if "decode_reply (info_reply E rq w0 (JIds (take (nat n) ids))) = Inr (JNotes ns)" for ns
    using sync_try_fetched [OF assms(6) tr, of ns] that lim by (simp add: loop_in_order)
  show ?thesis using first third by simp
qed

text \<open>A limit of one on a match of five notes: one note is fetched and processed, the
  first one the store returned.\<close>

theorem limit_takes_first_ids_witness:
  "posted (new_events empty_world
      (snd (sync env_five_notes (example_request\<lparr>limit := Some 1\<rparr>) empty_world)))
     = [FindNotes ''deck:Default'', NotesInfo (JIds [11]),
        StoreMediaFile ''azv_Front_11.mp3'' ''mp3:hello'',
        UpdateNoteFields 11 ''Audio'' ''[sound:azv_Front_11.mp3]'']
   \<and> sync_try env_five_notes (example_request\<lparr>limit := Some 1\<rparr>)
        (emit (DirCreated ''temp_audios'')
           (empty_world\<lparr>fs := (fs empty_world)(''temp_audios'' \<mapsto> Dir [])\<rparr>))
     = finish (process_in_order env_five_notes (example_request\<lparr>limit := Some 1\<rparr>)
         [flashcard 11 ''hello'' []] (0, 0)
         (after_fetch env_five_notes (example_request\<lparr>limit := Some 1\<rparr>)
            (emit (DirCreated ''temp_audios'')
               (empty_world\<lparr>fs := (fs empty_world)(''temp_audios'' \<mapsto> Dir [])\<rparr>))
            (JIds [11])))"
proof -
  let ?rq = "example_request\<lparr>limit := Some 1\<rparr>"
  let ?w0 = "emit (DirCreated ''temp_audios'')
               (empty_world\<lparr>fs := (fs empty_world)(''temp_audios'' \<mapsto> Dir [])\<rparr>)"
  have h1: "truthy_str (tts_key ?rq)" by (simp add: run_defs)
  have h2: "truthy_str (tts_region ?rq)" by (simp add: run_defs)
  have h3: "mkdir env_five_notes (temp_dir ?rq) empty_world = Inr ?w0"
    by (simp add: env_five_notes_def mkdir_def scripted_env_def example_request_def empty_world_def)
  have h4: "limit ?rq = Some 1" by simp
  have h5: "(0::int) < 1" by simp
  have h6: "decode_reply (find_reply env_five_notes ?rq ?w0) = Inr (JIds [11, 12, 13, 14, 15])"
    by (simp add: env_five_notes_def find_reply_def scripted_env_def decode_reply_def canned_post_def)
  have h7: "[11, 12, 13, 14, 15] \<noteq> ([] :: int list)" by simp
  have h8: "decode_reply (info_reply env_five_notes ?rq ?w0 (JIds (take (nat 1) [11, 12, 13, 14, 15])))
      = Inr (JNotes [flashcard 11 ''hello'' []])"
    by (simp add: env_five_notes_def info_reply_def scripted_env_def decode_reply_def canned_post_def)
  have tr: "trace (snd (sync env_five_notes ?rq empty_world))
     = [DirCreated ''temp_audios'', Echo (Searching ''deck:Default''),
        Post (FindNotes ''deck:Default'') (Envelope None (JIds [11, 12, 13, 14, 15])),
        Post (NotesInfo (JIds [11]))
          (Envelope None (JNotes [Note 11 [(''Front'', ''hello''), (''Audio'', [])]])),
        Speak None ''hello'' ''temp_audios'' ''azv_Front_11.mp3'',
        Post (StoreMediaFile ''azv_Front_11.mp3'' ''mp3:hello'') (Envelope None JNull),
        Post (UpdateNoteFields 11 ''Audio'' ''[sound:azv_Front_11.mp3]'') (Envelope None JNull),
        Sleep, Echo (Completed 1), Echo (CleaningUp ''temp_audios''), Rmtree ''temp_audios'']"
    by (simp add: env_five_notes_def run_defs)
  have p: "posted (new_events empty_world (snd (sync env_five_notes ?rq empty_world)))
     = [FindNotes ''deck:Default'', NotesInfo (JIds [11]),
        StoreMediaFile ''azv_Front_11.mp3'' ''mp3:hello'',
        UpdateNoteFields 11 ''Audio'' ''[sound:azv_Front_11.mp3]'']"
    unfolding new_events_def tr by (simp add: empty_world_def)
  have t1: "take (nat 1) [11, 12, 13, 14, 15] = [11::int]" by simp
  from limit_takes_first_ids [OF h1 h2 h3 h4 h5 h6 h7] h8
  have "sync_try env_five_notes ?rq ?w0
     = finish (process_in_order env_five_notes ?rq [flashcard 11 ''hello'' []] (0, 0)
         (after_fetch env_five_notes ?rq ?w0 (JIds (take (nat 1) [11, 12, 13, 14, 15]))))"
    by blast
  then have s: "sync_try env_five_notes ?rq ?w0
     = finish (process_in_order env_five_notes ?rq [flashcard 11 ''hello'' []] (0, 0)
         (after_fetch env_five_notes ?rq ?w0 (JIds [11])))"
    unfolding t1 .
  show ?thesis using p s by (rule conjI)
qed

subsection \<open>C8: a search that matches nothing\<close>

text \<open>
  C8, as the claim states it, fails: the temporary directory is created before the search,
  so a run whose search matches nothing does create it (and removes it again).
\<close>

theorem no_notes_creates_temp_dir_counterexample:
  "fs empty_world ''temp_audios'' = None
   \<and> trace (snd (sync env_no_notes example_request empty_world))
     = [DirCreated ''temp_audios'', Echo (Searching ''deck:Default''),
        Post (FindNotes ''deck:Default'') (Envelope None (JIds [])),
        Echo NoMatchingNotes, Echo (CleaningUp ''temp_audios''), Rmtree ''temp_audios'']"
  by (simp add: env_no_notes_def run_defs)

text \<open>
  C8, amended. When the search succeeds and matches nothing, the run prints that no notes
  match; after the creation of the temporary directory (if it was not there) its events
  are the search message, the search, the message that nothing matches, and the message
  and the call of the removal of the directory, so nothing is fetched, spoken, uploaded,
  updated or counted. When the removal succeeds the run returns normally and no temporary
  directory is left behind; when it raises the run ends with an \<open>OSError\<close>.
\<close>

theorem no_notes_found:
  assumes "truthy_str (tts_key rq)" and "truthy_str (tts_region rq)"
    and "mkdir E (temp_dir rq) w = Inr w0"
    and "decode_reply (find_reply E rq w0) = Inr j" and "\<not> truthy_json j"
  shows "trace (snd (sync E rq w))
           = trace w0 @ [Echo (Searching (query rq)),
                Post (FindNotes (query rq)) (find_reply E rq w0), Echo NoMatchingNotes,
                Echo (CleaningUp (temp_dir rq)), Rmtree (temp_dir rq)]
       \<and> fst (sync E rq w) = (if removal_ok E (temp_dir rq) w0 then Returned else Raised OSError)
       \<and> (removal_ok E (temp_dir rq) w0 \<longrightarrow> fs (snd (sync E rq w)) (temp_dir rq) = None)"
proof -
  have ok: "removal_ok E (temp_dir rq) (snd (sync_try E rq w0)) = removal_ok E (temp_dir rq) w0"
    using sync_try_no_notes(3) [OF assms(4,5)] by (rule removal_ok_fs)
  have "trace (snd (sync E rq w))
           = trace w0 @ [Echo (Searching (query rq)),
                Post (FindNotes (query rq)) (find_reply E rq w0), Echo NoMatchingNotes,
                Echo (CleaningUp (temp_dir rq)), Rmtree (temp_dir rq)]"
    using sync_run(1) [OF assms(1,2,3)] sync_try_no_notes(2) [OF assms(4,5)] by simp
  moreover have "fst (sync E rq w)
       = (if removal_ok E (temp_dir rq) w0 then Returned else Raised OSError)"
    using sync_run(2,3) [OF assms(1,2,3)] ok sync_try_no_notes(1) [OF assms(4,5)] by auto
  moreover have "removal_ok E (temp_dir rq) w0 \<longrightarrow> fs (snd (sync E rq w)) (temp_dir rq) = None"
    using sync_run(2) [OF assms(1,2,3)] ok by simp
  ultimately show ?thesis by simp
qed

theorem no_notes_found_witness:
  "fst (sync env_no_notes example_request empty_world) = Returned
   \<and> echoed (trace (snd (sync env_no_notes example_request empty_world)))
       = [Searching ''deck:Default'', NoMatchingNotes, CleaningUp ''temp_audios'']
   \<and> fs (snd (sync env_no_notes example_request empty_world)) ''temp_audios'' = None"
proof -
  let ?w0 = "emit (DirCreated ''temp_audios'')
               (empty_world\<lparr>fs := (fs empty_world)(''temp_audios'' \<mapsto> Dir [])\<rparr>)"
  have h1: "truthy_str (tts_key example_request)" by (simp add: run_defs)
  have h2: "truthy_str (tts_region example_request)" by (simp add: run_defs)
  have h3: "mkdir env_no_notes (temp_dir example_request) empty_world = Inr ?w0"
    by (simp add: env_no_notes_def mkdir_def scripted_env_def example_request_def empty_world_def)
  have h4: "decode_reply (find_reply env_no_notes example_request ?w0) = Inr (JIds [])"
    by (simp add: env_no_notes_def find_reply_def scripted_env_def decode_reply_def
        canned_post_def store_with_def)
  have h5: "\<not> truthy_json (JIds [])" by (simp add: truthy_json_def)
  have h6: "removal_ok env_no_notes (temp_dir example_request) ?w0"
    by (simp add: removal_ok_def env_no_notes_def scripted_env_def)
  from no_notes_found [OF h1 h2 h3 h4 h5] h6
  show ?thesis by (simp add: example_request_def empty_world_def)
qed

subsection \<open>C9: the count of updates does not look at the store's answers\<close>

text \<open>
  C9. When the loop reaches a note that is not to be skipped and has text to speak, and the
  speech service completes and writes the file, then, whatever the store answers to the
  upload and to the field update, the iteration posts both, adds one to the updated count,
  ends with the pause, and the loop goes on with the next note. So the count that is
  reported can be larger than the number of notes whose field was changed.
\<close>

theorem updated_counted_despite_store_failure:
  assumes "loop E rq pre c w = (Inr (sc, sk), w1)"
    and "strip (field_value flds (target rq)) = [] \<or> overwrite rq"
    and "clean_html E (strip (field_value flds (source rq))) = t" and "t \<noteq> []"
    and "speak E (trace w1) (voice rq) t (temp_dir rq) (file_name (source rq) nid)
           = SpeakResult True (Some b)"
    and "is_dir w1 (temp_dir rq)"
  shows "\<exists>w2. process_note E rq (Note nid flds) (sc, sk) w1 = (Inr (Suc sc, sk), w2)
          \<and> last (trace w2) = Sleep
          \<and> posted (new_events w1 w2)
              = [StoreMediaFile (file_name (source rq) nid) (b64encode E b),
                 UpdateNoteFields nid (target rq) (sound_tag (file_name (source rq) nid))]
          \<and> loop E rq (pre @ Note nid flds # rest) c w = loop E rq rest (Suc sc, sk) w2"
proof -
  let ?fn = "file_name (source rq) nid"
  let ?w0 = "write_file (temp_dir rq) ?fn b (emit (Speak (voice rq) t (temp_dir rq) ?fn) w1)"
  have t: "text_to_mp3 E (voice rq) t (temp_dir rq) ?fn w1 = (Inr True, ?w0)"
    using assms(5) by (simp add: text_to_mp3_def Let_def)
  have rd: "read_file (temp_dir rq) ?fn ?w0 = Inr b"
    using assms(6) by (simp add: read_write_file)
  from process_note_success [OF assms(2,3,4) t rd, of "(sc, sk)"]
  obtain w2 es where
    w2: "process_note E rq (Note nid flds) (sc, sk) w1 = (Inr (Suc sc, sk), w2)"
      "trace w2 = trace w1 @ es" "last es = Sleep"
      "posted es = [StoreMediaFile ?fn (b64encode E b), UpdateNoteFields nid (target rq) (sound_tag ?fn)]"
    by auto
  have "es \<noteq> []" using w2(4) by auto
  then have "last (trace w2) = Sleep" using w2(2,3) by simp
  moreover have "new_events w1 w2 = es" using w2(2) by simp
  moreover have "loop E rq (pre @ Note nid flds # rest) c w = loop E rq rest (Suc sc, sk) w2"
    using assms(1) w2(1) by (simp add: loop_append)
  ultimately show ?thesis using w2(1,4) by auto
qed

text \<open>The store refuses both writes, and the run reports one updated note.\<close>

theorem updated_counted_despite_store_failure_witness:
  "fst (loop env_writes_refused example_request
          ([] @ Note 1 [(''Front'', ''hello''), (''Audio'', [])] # []) (0, 0) ready_world) = Inr (1, 0)
   \<and> trace (snd (sync env_writes_refused example_request empty_world))
     = [DirCreated ''temp_audios'', Echo (Searching ''deck:Default''),
        Post (FindNotes ''deck:Default'') (Envelope None (JIds [1])),
        Post (NotesInfo (JIds [1]))
          (Envelope None (JNotes [Note 1 [(''Front'', ''hello''), (''Audio'', [])]])),
        Speak None ''hello'' ''temp_audios'' ''azv_Front_1.mp3'',
        Post (StoreMediaFile ''azv_Front_1.mp3'' ''mp3:hello'') (ConnectionFailed ''refused''),
        Echo (AnkiUnavailable ''refused''),
        Post (UpdateNoteFields 1 ''Audio'' ''[sound:azv_Front_1.mp3]'') (ConnectionFailed ''refused''),
        Echo (AnkiUnavailable ''refused''),
        Sleep, Echo (Completed 1), Echo (CleaningUp ''temp_audios''), Rmtree ''temp_audios'']"
proof -
  let ?E = "env_writes_refused"
  let ?flds = "[(''Front'', ''hello''), (''Audio'', [])]"
  have h1: "loop ?E example_request [] (0, 0) ready_world = (Inr (0, 0), ready_world)"
    by simp
  have h2: "strip (field_value ?flds (target example_request)) = [] \<or> overwrite example_request"
    by (simp add: run_defs)
  have h3: "clean_html ?E (strip (field_value ?flds (source example_request))) = ''hello''"
    by (simp add: env_writes_refused_def run_defs)
  have h4: "''hello'' \<noteq> []" by simp
  have h5: "speak ?E (trace ready_world) (voice example_request) ''hello'' (temp_dir example_request)
              (file_name (source example_request) 1) = SpeakResult True (Some ''mp3:hello'')"
    by (simp add: env_writes_refused_def scripted_env_def always_speaks_def)
  have h6: "is_dir ready_world (temp_dir example_request)"
    by (simp add: run_defs)
  have run: "trace (snd (sync ?E example_request empty_world))
     = [DirCreated ''temp_audios'', Echo (Searching ''deck:Default''),
        Post (FindNotes ''deck:Default'') (Envelope None (JIds [1])),
        Post (NotesInfo (JIds [1]))
          (Envelope None (JNotes [Note 1 [(''Front'', ''hello''), (''Audio'', [])]])),
        Speak None ''hello'' ''temp_audios'' ''azv_Front_1.mp3'',
        Post (StoreMediaFile ''azv_Front_1.mp3'' ''mp3:hello'') (ConnectionFailed ''refused''),
        Echo (AnkiUnavailable ''refused''),
        Post (UpdateNoteFields 1 ''Audio'' ''[sound:azv_Front_1.mp3]'') (ConnectionFailed ''refused''),
        Echo (AnkiUnavailable ''refused''),
        Sleep, Echo (Completed 1), Echo (CleaningUp ''temp_audios''), Rmtree ''temp_audios'']"
    by (simp add: env_writes_refused_def run_defs)
  from updated_counted_despite_store_failure [OF h1 h2 h3 h4 h5 h6, of "[]"] run
  show ?thesis by auto
qed

subsection \<open>C10: a temporary directory that is already there\<close>

text \<open>
  C10, as the claim states it, fails: a run that lacks the key of the speech service
  returns before the \<open>try\<close> block and leaves the directory that was there with its
  file; and a directory whose removal is refused (a symbolic link to a directory) is
  reused without error and left with its file, the run ending with an \<open>OSError\<close>.
\<close>

theorem existing_temp_dir_left_counterexample:
  "fs world_with_files ''temp_audios'' = Some (Dir [(''old.mp3'', ''x'')])
   \<and> fst (sync env_no_notes request_no_key world_with_files) = Returned
   \<and> fs (snd (sync env_no_notes request_no_key world_with_files)) ''temp_audios''
       = Some (Dir [(''old.mp3'', ''x'')])
   \<and> fst (sync env_symlink example_request world_with_files) = Raised OSError
   \<and> fs (snd (sync env_symlink example_request world_with_files)) ''temp_audios''
       = Some (Dir [(''old.mp3'', ''x'')])"
  by (simp add: env_symlink_def env_no_notes_def request_no_key_def world_with_files_def run_defs)

text \<open>
  C10, amended. When the credentials are there and the path of the temporary directory is
  a directory before the run, with whatever files, the creation step succeeds and changes
  nothing, and the run ends, whatever the outcome of its \<open>try\<close> block is (the return on
  an empty result included), with the message and the call of the removal of the
  directory. When the removal succeeds, the path, and with it every file that was there
  before, is gone from the file system and the outcome is that of the \<open>try\<close> block;
  when it raises, the run ends with an \<open>OSError\<close>.
\<close>

theorem existing_temp_dir_reused_and_removed:
  assumes "truthy_str (tts_key rq)" and "truthy_str (tts_region rq)"
    and "fs w (temp_dir rq) = Some (Dir cs)"
  shows "mkdir E (temp_dir rq) w = Inr w
       \<and> trace (snd (sync E rq w))
           = trace (snd (sync_try E rq w)) @ [Echo (CleaningUp (temp_dir rq)), Rmtree (temp_dir rq)]
       \<and> (removal_ok E (temp_dir rq) (snd (sync_try E rq w)) \<longrightarrow>
            fst (sync E rq w) = fst (sync_try E rq w)
            \<and> fs (snd (sync E rq w)) (temp_dir rq) = None)
       \<and> (\<not> removal_ok E (temp_dir rq) (snd (sync_try E rq w)) \<longrightarrow>
            fst (sync E rq w) = Raised OSError)"
proof -
  have m: "mkdir E (temp_dir rq) w = Inr w" using assms(3) by (simp add: mkdir_def)
  show ?thesis
    using m sync_run(1) [OF assms(1,2) m] sync_run(2) [OF assms(1,2) m]
      sync_run(3) [OF assms(1,2) m]
    by blast
qed

text \<open>The way out on an empty result, the directory holding a file before the run.\<close>

theorem existing_temp_dir_reused_and_removed_witness:
  "fs world_with_files ''temp_audios'' = Some (Dir [(''old.mp3'', ''x'')])
   \<and> fst (sync env_no_notes example_request world_with_files) = Returned
   \<and> fs (snd (sync env_no_notes example_request world_with_files)) ''temp_audios'' = None
   \<and> last (trace (snd (sync env_no_notes example_request world_with_files))) = Rmtree ''temp_audios''"
proof -
  have h1: "truthy_str (tts_key example_request)" by (simp add: run_defs)
  have h2: "truthy_str (tts_region example_request)" by (simp add: run_defs)
  have h3: "fs world_with_files (temp_dir example_request) = Some (Dir [(''old.mp3'', ''x'')])"
    by (simp add: world_with_files_def example_request_def)
  have h4: "fst (sync_try env_no_notes example_request world_with_files) = Returned"
    by (simp add: env_no_notes_def world_with_files_def run_defs)
  have h5: "removal_ok env_no_notes (temp_dir example_request)
              (snd (sync_try env_no_notes example_request world_with_files))"
    by (simp add: removal_ok_def env_no_notes_def scripted_env_def)
  from existing_temp_dir_reused_and_removed [OF h1 h2 h3, of env_no_notes] h3 h4 h5
  show ?thesis by (simp add: example_request_def)
qed

end
